theory Spec2Isabelle
  imports Main "HOL-Library.FSet" "HOL-Library.Char_ord" "HOL-Library.List_Lexorder"
begin

section \<open>Errors\<close>

text \<open>
  Every exception of the C++ code is a value. \<open>RuntimeError\<close> is the
  \<^verbatim>\<open>std::runtime_error\<close> that \<^verbatim>\<open>pddl.cc\<close> throws itself, with its message. The other
  constructors are the failures that the classes used by \<^verbatim>\<open>pddl.cc\<close> may raise.
  \<open>NullDereference\<close> stands for dereferencing a null pointer, where C++ leaves the
  behaviour undefined.
\<close>

datatype error =
    RuntimeError string
  | UnknownAction string
  | UnknownObject string
  | ArityMismatch string
  | UnsupportedGoalConstruct
  | NullDereference

text \<open>The exception that a call ends with, if it ends with one.\<close>

definition thrown :: "error + 'a \<Rightarrow> error option" where
  "thrown r = (case r of Inl e \<Rightarrow> Some e | Inr v \<Rightarrow> None)"

section \<open>The parsed tree (namespace \<^verbatim>\<open>VAL\<close>)\<close>

text \<open>
  The tree is read-only input. Its shape is the one \<^verbatim>\<open>pddl.cc\<close> walks in
  \<^verbatim>\<open>GetInitialState\<close>, \<^verbatim>\<open>GetActions\<close>, \<^verbatim>\<open>PrintGoal\<close> and \<^verbatim>\<open>PrintEffects\<close>.
\<close>

record VAL_pddl_type =
  pddl_type_name :: string
  pddl_type_parent :: string

record VAL_symbol =
  symbol_name :: string
  symbol_type :: string

record VAL_proposition =
  prop_head :: string
  prop_args :: "VAL_symbol list"

datatype VAL_quantifier = E_FORALL | E_EXISTS

datatype VAL_goal =
    simple_goal VAL_proposition
  | conj_goal "VAL_goal list"
  | disj_goal "VAL_goal list"
  | neg_goal VAL_goal
  | qfied_goal VAL_quantifier "VAL_symbol list" VAL_goal
  | imply_goal VAL_goal VAL_goal
  | other_goal

datatype VAL_effect_lists =
  effect_lists
    (add_effects: "VAL_proposition list")
    (del_effects: "VAL_proposition list")
    (forall_effects: "(VAL_symbol list \<times> VAL_effect_lists) list")
    (cond_effects: "(VAL_goal \<times> VAL_effect_lists) list")

record VAL_operator_body =
  op_name :: string
  op_parameters :: "VAL_symbol list"
  op_precondition :: VAL_goal
  op_effects :: VAL_effect_lists

text \<open>
  \<^verbatim>\<open>domain.ops\<close> holds operators of several classes; \<^verbatim>\<open>GetActions\<close> and \<^verbatim>\<open>GetAxioms\<close>
  pick theirs with a \<^verbatim>\<open>dynamic_cast\<close>.
\<close>

datatype VAL_operator =
    VAL_action VAL_operator_body
  | VAL_axiom VAL_operator_body
  | VAL_other_operator VAL_operator_body

record VAL_derivation_rule =
  drv_head :: VAL_proposition
  drv_body :: VAL_goal

record VAL_domain =
  domain_name :: string
  domain_types :: "VAL_pddl_type list option"
  domain_constants :: "VAL_symbol list option"
  domain_ops :: "VAL_operator list"
  domain_drvs :: "VAL_derivation_rule list"

record VAL_problem =
  problem_name :: string
  problem_objects :: "VAL_symbol list option"
  problem_initial_state :: VAL_effect_lists
  problem_the_goal :: VAL_goal

text \<open>\<^verbatim>\<open>the_domain\<close> and \<^verbatim>\<open>the_problem\<close> are pointers, null until the parser sets them.\<close>

record VAL_analysis =
  the_domain :: "VAL_domain option"
  the_problem :: "VAL_problem option"

section \<open>Objects, propositions, states\<close>

text \<open>
  An \<^verbatim>\<open>Object\<close> has a name and a type, and the type lists the names of all types it
  satisfies (\<^verbatim>\<open>object.type().ListTypes()\<close>).
\<close>

record Type =
  type_name :: string
  ListTypes :: "string list"

record Object =
  object_name :: string
  object_type :: Type

record Proposition =
  proposition_name :: string
  proposition_arguments :: "Object list"

text \<open>
  \<^verbatim>\<open>State\<close> is a set of propositions; the text form of a state is a
  \<^verbatim>\<open>std::set<std::string>\<close>, which iterates in lexicographic order.
\<close>

type_synonym State = "Proposition fset"

type_synonym ObjectTypeMap = "string \<rightharpoonup> Object list"

section \<open>Actions, derived predicates, the goal formula\<close>

text \<open>
  Each of these objects keeps a reference to the \<^verbatim>\<open>Pddl\<close> it was built for, to look
  objects up; the reference is the pair of the object list and the type index.
\<close>

record Registry =
  registry_objects :: "Object list"
  registry_object_map :: ObjectTypeMap

record Action =
  action_registry :: Registry
  action_name :: string
  action_parameters :: "Object list"
  action_precondition :: VAL_goal
  action_effects :: VAL_effect_lists

record Axiom =
  axiom_registry :: Registry
  axiom_name :: string
  axiom_parameters :: "Object list"
  axiom_precondition :: VAL_goal
  axiom_effects :: VAL_effect_lists

record DerivedPredicate =
  derived_registry :: Registry
  derived_head :: string
  derived_parameters :: "Object list"
  derived_body :: VAL_goal

record Formula =
  formula_registry :: Registry
  formula_goal :: VAL_goal

section \<open>The class \<^verbatim>\<open>Pddl\<close>\<close>

record Pddl =
  pddl_analysis :: VAL_analysis
  pddl_domain :: VAL_domain
  pddl_problem :: VAL_problem
  pddl_objects :: "Object list"
  pddl_object_map :: ObjectTypeMap
  pddl_actions :: "Action list"
  pddl_axioms :: "Axiom list"
  pddl_derived_predicates :: "DerivedPredicate list"
  pddl_initial_state :: State
  pddl_goal :: Formula

section \<open>What \<^verbatim>\<open>pddl.cc\<close> calls and does not define\<close>

text \<open>
  The parser (\<^verbatim>\<open>yyparse\<close>) belongs to the library \<^verbatim>\<open>VAL\<close>, and the member
  functions of \<^verbatim>\<open>Object\<close>, \<^verbatim>\<open>Proposition\<close>, \<^verbatim>\<open>Action\<close>, \<^verbatim>\<open>Axiom\<close>, \<^verbatim>\<open>DerivedPredicate\<close>,
  \<^verbatim>\<open>Formula\<close> and \<^verbatim>\<open>ParameterGenerator\<close> are declared in headers that \<^verbatim>\<open>pddl.cc\<close>
  includes and defined in other files. They are parameters of the model: a record of
  functions, one field for each function that \<^verbatim>\<open>pddl.cc\<close> calls. A function that may throw returns \<open>error + 'a\<close>. The in-place
  \<^verbatim>\<open>Apply\<close> functions take the state and return the changed flag with the new state.
\<close>

record symbolic =
  yyparse :: "string \<Rightarrow> VAL_analysis \<Rightarrow> VAL_analysis"
  Object_CreateList ::
    "VAL_pddl_type list option \<Rightarrow> VAL_symbol list option \<Rightarrow> error + Object list"
  Object_of_symbol :: "VAL_pddl_type list option \<Rightarrow> VAL_symbol \<Rightarrow> Object"
  Proposition_of_string :: "Pddl \<Rightarrow> string \<Rightarrow> error + Proposition"
  Proposition_to_string :: "Proposition \<Rightarrow> string"
  Action_of_operator :: "Pddl \<Rightarrow> VAL_operator \<Rightarrow> error + Action"
  Action_of_name :: "Pddl \<Rightarrow> string \<Rightarrow> error + Action"
  Action_Parse :: "Pddl \<Rightarrow> string \<Rightarrow> error + Action \<times> Object list"
  Action_IsValid :: "Action \<Rightarrow> State \<Rightarrow> Object list \<Rightarrow> error + bool"
  Action_Apply :: "Action \<Rightarrow> State \<Rightarrow> Object list \<Rightarrow> error + State"
  Action_Apply_in_place :: "Action \<Rightarrow> Object list \<Rightarrow> State \<Rightarrow> error + bool \<times> State"
  Action_to_string :: "Action \<Rightarrow> Object list \<Rightarrow> string"
  Axiom_of_operator :: "Pddl \<Rightarrow> VAL_operator \<Rightarrow> error + Axiom"
  DerivedPredicate_of_rule :: "Pddl \<Rightarrow> VAL_derivation_rule \<Rightarrow> error + DerivedPredicate"
  DerivedPredicate_Apply :: "DerivedPredicate list \<Rightarrow> State \<Rightarrow> error + bool \<times> State"
  Formula_of_goal :: "Pddl \<Rightarrow> VAL_goal \<Rightarrow> error + Formula"
  Formula_call :: "Formula \<Rightarrow> State \<Rightarrow> error + bool"
  ParameterGenerator :: "ObjectTypeMap \<Rightarrow> Object list \<Rightarrow> Object list list"

section \<open>The functions of \<^verbatim>\<open>pddl.cc\<close>\<close>

subsection \<open>\<^verbatim>\<open>ParsePddl\<close>\<close>

definition new_analysis :: VAL_analysis where
  "new_analysis = \<lparr>the_domain = None, the_problem = None\<rparr>"

definition ParsePddl :: "symbolic \<Rightarrow> string \<Rightarrow> string \<Rightarrow> error + VAL_analysis" where
  "ParsePddl lib filename_domain filename_problem =
     (let analysis = yyparse lib filename_domain new_analysis in
      if the_domain analysis = None then
        Inl (RuntimeError (''ParsePddl(): Unable to parse domain from file: '' @ filename_domain))
      else
        let analysis = yyparse lib filename_problem analysis in
        if the_domain analysis = None then
          Inl (RuntimeError (''ParsePddl(): Unable to parse problem from file: '' @ filename_problem))
        else Inr analysis)"

subsection \<open>\<^verbatim>\<open>GetObjects\<close> and \<^verbatim>\<open>CreateObjectTypeMap\<close>\<close>

definition GetObjects :: "symbolic \<Rightarrow> VAL_domain \<Rightarrow> VAL_problem \<Rightarrow> error + Object list" where
  "GetObjects lib domain problem =
     (case Object_CreateList lib (domain_types domain) (domain_constants domain) of
        Inl e \<Rightarrow> Inl e
      | Inr objects \<Rightarrow>
          (case Object_CreateList lib (domain_types domain) (problem_objects problem) of
             Inl e \<Rightarrow> Inl e
           | Inr objects_2 \<Rightarrow> Inr (objects @ objects_2)))"

text \<open>\<^verbatim>\<open>object_map[type].push_back(object)\<close>: a missing key starts from the empty vector.\<close>

definition push_back_at :: "Object \<Rightarrow> ObjectTypeMap \<Rightarrow> string \<Rightarrow> ObjectTypeMap" where
  "push_back_at object object_map type =
     object_map(type \<mapsto> (case object_map type of None \<Rightarrow> [] | Some v \<Rightarrow> v) @ [object])"

text \<open>The vector stored under a key, empty for a missing key.\<close>

definition entries_at :: "ObjectTypeMap \<Rightarrow> string \<Rightarrow> Object list" where
  "entries_at object_map type = (case object_map type of None \<Rightarrow> [] | Some v \<Rightarrow> v)"

text \<open>The inner loop of \<^verbatim>\<open>CreateObjectTypeMap\<close>: one object, under each of its types.\<close>

definition push_back_types :: "ObjectTypeMap \<Rightarrow> Object \<Rightarrow> ObjectTypeMap" where
  "push_back_types object_map object =
     foldl (push_back_at object) object_map (ListTypes (object_type object))"

definition CreateObjectTypeMap :: "Object list \<Rightarrow> ObjectTypeMap" where
  "CreateObjectTypeMap objects = foldl push_back_types Map.empty objects"

subsection \<open>\<^verbatim>\<open>ParseState\<close> and \<^verbatim>\<open>Stringify\<close>\<close>

text \<open>
  \<^verbatim>\<open>ParseState\<close> walks the strings in the order of the \<^verbatim>\<open>std::set\<close> and stops at the
  first one that the \<^verbatim>\<open>Proposition\<close> constructor refuses.
\<close>

fun ParseState_loop :: "symbolic \<Rightarrow> Pddl \<Rightarrow> string list \<Rightarrow> State \<Rightarrow> error + State" where
  "ParseState_loop lib pddl [] state = Inr state"
| "ParseState_loop lib pddl (str_prop # rest) state =
     (case Proposition_of_string lib pddl str_prop of
        Inl e \<Rightarrow> Inl e
      | Inr prop \<Rightarrow> ParseState_loop lib pddl rest (finsert prop state))"

definition ParseState :: "symbolic \<Rightarrow> Pddl \<Rightarrow> string fset \<Rightarrow> error + State" where
  "ParseState lib pddl str_state =
     ParseState_loop lib pddl (sorted_list_of_fset str_state) {||}"

definition Stringify :: "symbolic \<Rightarrow> State \<Rightarrow> string fset" where
  "Stringify lib state = Proposition_to_string lib |`| state"

definition Stringify_actions :: "Action list \<Rightarrow> string list" where
  "Stringify_actions actions = map action_name actions"

definition Stringify_arguments :: "Object list list \<Rightarrow> string list list" where
  "Stringify_arguments arguments = map (map object_name) arguments"

definition Stringify_objects :: "Object list \<Rightarrow> string list" where
  "Stringify_objects objects = map object_name objects"

subsection \<open>\<^verbatim>\<open>GetActions\<close>, \<^verbatim>\<open>GetAxioms\<close>, \<^verbatim>\<open>GetDerivedPredicates\<close>\<close>

fun GetActions_loop ::
  "symbolic \<Rightarrow> Pddl \<Rightarrow> VAL_operator list \<Rightarrow> Action list \<Rightarrow> error + Action list" where
  "GetActions_loop lib pddl [] actions = Inr actions"
| "GetActions_loop lib pddl (op # ops) actions =
     (case op of
        VAL_action a \<Rightarrow>
          (case Action_of_operator lib pddl op of
             Inl e \<Rightarrow> Inl e
           | Inr action \<Rightarrow> GetActions_loop lib pddl ops (actions @ [action]))
      | _ \<Rightarrow> GetActions_loop lib pddl ops actions)"

definition GetActions :: "symbolic \<Rightarrow> Pddl \<Rightarrow> VAL_domain \<Rightarrow> error + Action list" where
  "GetActions lib pddl domain = GetActions_loop lib pddl (domain_ops domain) []"

fun GetAxioms_loop ::
  "symbolic \<Rightarrow> Pddl \<Rightarrow> VAL_operator list \<Rightarrow> Axiom list \<Rightarrow> error + Axiom list" where
  "GetAxioms_loop lib pddl [] axioms = Inr axioms"
| "GetAxioms_loop lib pddl (op # ops) axioms =
     (case op of
        VAL_axiom a \<Rightarrow>
          (case Axiom_of_operator lib pddl op of
             Inl e \<Rightarrow> Inl e
           | Inr ax \<Rightarrow> GetAxioms_loop lib pddl ops (axioms @ [ax]))
      | _ \<Rightarrow> GetAxioms_loop lib pddl ops axioms)"

definition GetAxioms :: "symbolic \<Rightarrow> Pddl \<Rightarrow> VAL_domain \<Rightarrow> error + Axiom list" where
  "GetAxioms lib pddl domain = GetAxioms_loop lib pddl (domain_ops domain) []"

fun GetDerivedPredicates_loop ::
  "symbolic \<Rightarrow> Pddl \<Rightarrow> VAL_derivation_rule list \<Rightarrow> DerivedPredicate list \<Rightarrow>
   error + DerivedPredicate list" where
  "GetDerivedPredicates_loop lib pddl [] predicates = Inr predicates"
| "GetDerivedPredicates_loop lib pddl (drv # drvs) predicates =
     (case DerivedPredicate_of_rule lib pddl drv of
        Inl e \<Rightarrow> Inl e
      | Inr predicate \<Rightarrow> GetDerivedPredicates_loop lib pddl drvs (predicates @ [predicate]))"

definition GetDerivedPredicates ::
  "symbolic \<Rightarrow> Pddl \<Rightarrow> VAL_domain \<Rightarrow> error + DerivedPredicate list" where
  "GetDerivedPredicates lib pddl domain =
     GetDerivedPredicates_loop lib pddl (domain_drvs domain) []"

subsection \<open>\<^verbatim>\<open>GetInitialState\<close>\<close>

definition initial_proposition :: "symbolic \<Rightarrow> VAL_domain \<Rightarrow> VAL_proposition \<Rightarrow> Proposition" where
  "initial_proposition lib domain prop =
     \<lparr>proposition_name = prop_head prop,
      proposition_arguments = map (Object_of_symbol lib (domain_types domain)) (prop_args prop)\<rparr>"

definition GetInitialState :: "symbolic \<Rightarrow> VAL_domain \<Rightarrow> VAL_problem \<Rightarrow> State" where
  "GetInitialState lib domain problem =
     foldl (\<lambda>initial_state effect. finsert (initial_proposition lib domain effect) initial_state)
       {||} (add_effects (problem_initial_state problem))"

subsection \<open>The two \<^verbatim>\<open>Apply\<close> helpers\<close>

text \<open>The first returns the next state; the second changes the state it is given.\<close>

definition Apply ::
  "symbolic \<Rightarrow> State \<Rightarrow> Action \<Rightarrow> Object list \<Rightarrow> DerivedPredicate list \<Rightarrow> error + State" where
  "Apply lib state action arguments predicates =
     (case Action_Apply lib action state arguments of
        Inl e \<Rightarrow> Inl e
      | Inr next_state \<Rightarrow>
          (case DerivedPredicate_Apply lib predicates next_state of
             Inl e \<Rightarrow> Inl e
           | Inr (changed, next_state') \<Rightarrow> Inr next_state'))"

definition Apply_in_place ::
  "symbolic \<Rightarrow> Action \<Rightarrow> Object list \<Rightarrow> DerivedPredicate list \<Rightarrow> State \<Rightarrow>
   error + bool \<times> State" where
  "Apply_in_place lib action arguments predicates state =
     (case Action_Apply_in_place lib action arguments state of
        Inl e \<Rightarrow> Inl e
      | Inr (is_changed, state') \<Rightarrow>
          (case DerivedPredicate_Apply lib predicates state' of
             Inl e \<Rightarrow> Inl e
           | Inr (changed, state'') \<Rightarrow> Inr (is_changed \<or> changed, state'')))"

subsection \<open>The constructor \<^verbatim>\<open>Pddl::Pddl\<close>\<close>

text \<open>
  The members are initialised in the order of the initialiser list. \<^verbatim>\<open>GetActions\<close>,
  \<^verbatim>\<open>GetAxioms\<close>, \<^verbatim>\<open>GetDerivedPredicates\<close> and the \<^verbatim>\<open>Formula\<close> constructor receive
  \<^verbatim>\<open>*this\<close> while later members are not yet set; these hold the placeholders of
  \<open>unset_Pddl\<close> until their turn comes. A member \<^verbatim>\<open>objects_\<close> of the class is the field
  \<open>pddl_objects\<close> of the record, and so on.
\<close>

definition unset_Formula :: Formula where
  "unset_Formula =
     \<lparr>formula_registry = \<lparr>registry_objects = [], registry_object_map = Map.empty\<rparr>,
      formula_goal = other_goal\<rparr>"

definition unset_Pddl :: "VAL_analysis \<Rightarrow> VAL_domain \<Rightarrow> VAL_problem \<Rightarrow> Pddl" where
  "unset_Pddl analysis domain problem =
     \<lparr>pddl_analysis = analysis, pddl_domain = domain, pddl_problem = problem, pddl_objects = [],
      pddl_object_map = Map.empty, pddl_actions = [], pddl_axioms = [], pddl_derived_predicates = [],
      pddl_initial_state = {||}, pddl_goal = unset_Formula\<rparr>"

definition Pddl_new :: "symbolic \<Rightarrow> string \<Rightarrow> string \<Rightarrow> error + Pddl" where
  "Pddl_new lib domain_pddl problem_pddl =
     (case ParsePddl lib domain_pddl problem_pddl of
        Inl e \<Rightarrow> Inl e
      | Inr analysis \<Rightarrow>
     (case the_domain analysis of
        None \<Rightarrow> Inl NullDereference
      | Some domain \<Rightarrow>
     (case the_problem analysis of
        None \<Rightarrow> Inl NullDereference
      | Some problem \<Rightarrow>
     (case GetObjects lib domain problem of
        Inl e \<Rightarrow> Inl e
      | Inr objects \<Rightarrow>
     (let this = (unset_Pddl analysis domain problem)
            \<lparr>pddl_objects := objects, pddl_object_map := CreateObjectTypeMap objects\<rparr> in
      case GetActions lib this domain of
        Inl e \<Rightarrow> Inl e
      | Inr actions \<Rightarrow>
     (let this = this\<lparr>pddl_actions := actions\<rparr> in
      case GetAxioms lib this domain of
        Inl e \<Rightarrow> Inl e
      | Inr axioms \<Rightarrow>
     (let this = this\<lparr>pddl_axioms := axioms\<rparr> in
      case GetDerivedPredicates lib this domain of
        Inl e \<Rightarrow> Inl e
      | Inr predicates \<Rightarrow>
     (let this = this\<lparr>pddl_derived_predicates := predicates,
                       pddl_initial_state := GetInitialState lib domain problem\<rparr> in
      case Formula_of_goal lib this (problem_the_goal problem) of
        Inl e \<Rightarrow> Inl e
      | Inr goal \<Rightarrow> Inr (this\<lparr>pddl_goal := goal\<rparr>)))))))))"

subsection \<open>\<^verbatim>\<open>NextState\<close>, \<^verbatim>\<open>IsValidAction\<close>, \<^verbatim>\<open>IsValidTuple\<close>, \<^verbatim>\<open>IsGoalSatisfied\<close>\<close>

definition NextState :: "symbolic \<Rightarrow> Pddl \<Rightarrow> State \<Rightarrow> string \<Rightarrow> error + State" where
  "NextState lib pddl state action_call =
     (case Action_Parse lib pddl action_call of
        Inl e \<Rightarrow> Inl e
      | Inr (action, arguments) \<Rightarrow>
          Apply lib state action arguments (pddl_derived_predicates pddl))"

definition NextState_str :: "symbolic \<Rightarrow> Pddl \<Rightarrow> string fset \<Rightarrow> string \<Rightarrow> error + string fset" where
  "NextState_str lib pddl str_state action_call =
     (case ParseState lib pddl str_state of
        Inl e \<Rightarrow> Inl e
      | Inr state \<Rightarrow>
     (case Action_Parse lib pddl action_call of
        Inl e \<Rightarrow> Inl e
      | Inr (action, arguments) \<Rightarrow>
     (case Apply_in_place lib action arguments (pddl_derived_predicates pddl) state of
        Inl e \<Rightarrow> Inl e
      | Inr (is_changed, state') \<Rightarrow> Inr (Stringify lib state'))))"

definition IsValidAction :: "symbolic \<Rightarrow> Pddl \<Rightarrow> State \<Rightarrow> string \<Rightarrow> error + bool" where
  "IsValidAction lib pddl state action_call =
     (case Action_Parse lib pddl action_call of
        Inl e \<Rightarrow> Inl e
      | Inr (action, arguments) \<Rightarrow> Action_IsValid lib action state arguments)"

definition IsValidAction_str :: "symbolic \<Rightarrow> Pddl \<Rightarrow> string fset \<Rightarrow> string \<Rightarrow> error + bool" where
  "IsValidAction_str lib pddl str_state action_call =
     (case ParseState lib pddl str_state of
        Inl e \<Rightarrow> Inl e
      | Inr state \<Rightarrow> IsValidAction lib pddl state action_call)"

text \<open>\<^verbatim>\<open>&&\<close> does not evaluate \<^verbatim>\<open>Apply\<close> when \<^verbatim>\<open>IsValid\<close> is false.\<close>

definition IsValidTuple :: "symbolic \<Rightarrow> Pddl \<Rightarrow> State \<Rightarrow> string \<Rightarrow> State \<Rightarrow> error + bool" where
  "IsValidTuple lib pddl state action_call next_state =
     (case Action_Parse lib pddl action_call of
        Inl e \<Rightarrow> Inl e
      | Inr (action, arguments) \<Rightarrow>
     (case Action_IsValid lib action state arguments of
        Inl e \<Rightarrow> Inl e
      | Inr valid \<Rightarrow>
          if \<not> valid then Inr False
          else (case Apply lib state action arguments (pddl_derived_predicates pddl) of
                  Inl e \<Rightarrow> Inl e
                | Inr applied \<Rightarrow> Inr (applied = next_state))))"

definition IsValidTuple_str ::
  "symbolic \<Rightarrow> Pddl \<Rightarrow> string fset \<Rightarrow> string \<Rightarrow> string fset \<Rightarrow> error + bool" where
  "IsValidTuple_str lib pddl str_state action_call str_next_state =
     (case ParseState lib pddl str_state of
        Inl e \<Rightarrow> Inl e
      | Inr state \<Rightarrow>
     (case ParseState lib pddl str_next_state of
        Inl e \<Rightarrow> Inl e
      | Inr next_state \<Rightarrow> IsValidTuple lib pddl state action_call next_state))"

definition IsGoalSatisfied :: "symbolic \<Rightarrow> Pddl \<Rightarrow> string fset \<Rightarrow> error + bool" where
  "IsGoalSatisfied lib pddl str_state =
     (case ParseState lib pddl str_state of
        Inl e \<Rightarrow> Inl e
      | Inr state \<Rightarrow> Formula_call lib (pddl_goal pddl) state)"

subsection \<open>\<^verbatim>\<open>IsValidPlan\<close>\<close>

fun IsValidPlan_loop :: "symbolic \<Rightarrow> Pddl \<Rightarrow> string list \<Rightarrow> State \<Rightarrow> error + bool" where
  "IsValidPlan_loop lib pddl [] state = Formula_call lib (pddl_goal pddl) state"
| "IsValidPlan_loop lib pddl (action_call # rest) state =
     (case Action_Parse lib pddl action_call of
        Inl e \<Rightarrow> Inl e
      | Inr (action, arguments) \<Rightarrow>
     (case Action_IsValid lib action state arguments of
        Inl e \<Rightarrow> Inl e
      | Inr valid \<Rightarrow>
          if \<not> valid then Inr False
          else (case Apply_in_place lib action arguments (pddl_derived_predicates pddl) state of
                  Inl e \<Rightarrow> Inl e
                | Inr (is_changed, state') \<Rightarrow> IsValidPlan_loop lib pddl rest state')))"

definition IsValidPlan :: "symbolic \<Rightarrow> Pddl \<Rightarrow> string list \<Rightarrow> error + bool" where
  "IsValidPlan lib pddl action_skeleton =
     IsValidPlan_loop lib pddl action_skeleton (pddl_initial_state pddl)"

subsection \<open>\<^verbatim>\<open>ListValidArguments\<close> and \<^verbatim>\<open>ListValidActions\<close>\<close>

fun ListValidArguments_loop ::
  "symbolic \<Rightarrow> State \<Rightarrow> Action \<Rightarrow> Object list list \<Rightarrow> Object list list \<Rightarrow>
   error + Object list list" where
  "ListValidArguments_loop lib state action [] arguments = Inr arguments"
| "ListValidArguments_loop lib state action (args # rest) arguments =
     (case Action_IsValid lib action state args of
        Inl e \<Rightarrow> Inl e
      | Inr valid \<Rightarrow>
          ListValidArguments_loop lib state action rest
            (if valid then arguments @ [args] else arguments))"

definition ListValidArguments ::
  "symbolic \<Rightarrow> Pddl \<Rightarrow> State \<Rightarrow> Action \<Rightarrow> error + Object list list" where
  "ListValidArguments lib pddl state action =
     ListValidArguments_loop lib state action
       (ParameterGenerator lib (pddl_object_map pddl) (action_parameters action)) []"

definition ListValidArguments_str ::
  "symbolic \<Rightarrow> Pddl \<Rightarrow> string fset \<Rightarrow> string \<Rightarrow> error + string list list" where
  "ListValidArguments_str lib pddl str_state action_name' =
     (case ParseState lib pddl str_state of
        Inl e \<Rightarrow> Inl e
      | Inr state \<Rightarrow>
     (case Action_of_name lib pddl action_name' of
        Inl e \<Rightarrow> Inl e
      | Inr action \<Rightarrow>
     (case ListValidArguments lib pddl state action of
        Inl e \<Rightarrow> Inl e
      | Inr arguments \<Rightarrow> Inr (Stringify_arguments arguments))))"

fun ListValidActions_loop ::
  "symbolic \<Rightarrow> Pddl \<Rightarrow> State \<Rightarrow> Action list \<Rightarrow> string list \<Rightarrow> error + string list" where
  "ListValidActions_loop lib pddl state [] actions = Inr actions"
| "ListValidActions_loop lib pddl state (action # rest) actions =
     (case ListValidArguments lib pddl state action of
        Inl e \<Rightarrow> Inl e
      | Inr arguments \<Rightarrow>
          ListValidActions_loop lib pddl state rest
            (actions @ map (Action_to_string lib action) arguments))"

definition ListValidActions :: "symbolic \<Rightarrow> Pddl \<Rightarrow> State \<Rightarrow> error + string list" where
  "ListValidActions lib pddl state = ListValidActions_loop lib pddl state (pddl_actions pddl) []"

definition ListValidActions_str :: "symbolic \<Rightarrow> Pddl \<Rightarrow> string fset \<Rightarrow> error + string list" where
  "ListValidActions_str lib pddl str_state =
     (case ParseState lib pddl str_state of
        Inl e \<Rightarrow> Inl e
      | Inr state \<Rightarrow> ListValidActions lib pddl state)"

section \<open>The classes behind \<^verbatim>\<open>pddl.cc\<close>, after the specification\<close>

text \<open>
  The theorems stated for a variable \<open>lib\<close> hold for every value of the record
  \<open>symbolic\<close>. To run the functions of \<^verbatim>\<open>pddl.cc\<close> on concrete domains, this section
  builds one such value from the specification's description of the missing classes. Every definition here is named
  \<open>spec_\<dots>\<close>.
\<close>

subsection \<open>Types and objects\<close>

text \<open>
  Modelled from the spec: \<^verbatim>\<open>Type::ListTypes\<close> is missing. An object satisfies "its own
  type and all ancestor types"; the walk up the declared parents is bounded by the number
  of declared types.
\<close>

fun spec_ancestors :: "VAL_pddl_type list \<Rightarrow> nat \<Rightarrow> string \<Rightarrow> string list" where
  "spec_ancestors types 0 t = [t]"
| "spec_ancestors types (Suc n) t =
     t # concat (map (spec_ancestors types n)
                   (map pddl_type_parent (filter (\<lambda>ty. pddl_type_name ty = t) types)))"

text \<open>Modelled from the spec: \<^verbatim>\<open>Type::ListTypes\<close> is missing; each type is listed once.\<close>

definition spec_ListTypes :: "VAL_pddl_type list option \<Rightarrow> string \<Rightarrow> string list" where
  "spec_ListTypes types t =
     (case types of None \<Rightarrow> [t] | Some tys \<Rightarrow> remdups (spec_ancestors tys (length tys) t))"

text \<open>
  Modelled from the spec: the constructor \<^verbatim>\<open>Object(types, symbol)\<close> is missing. An object
  is "a name plus the set of type names it satisfies".
\<close>

definition spec_Object_of_symbol :: "VAL_pddl_type list option \<Rightarrow> VAL_symbol \<Rightarrow> Object" where
  "spec_Object_of_symbol types symbol =
     \<lparr>object_name = symbol_name symbol,
      object_type = \<lparr>type_name = symbol_type symbol,
                     ListTypes = spec_ListTypes types (symbol_type symbol)\<rparr>\<rparr>"

text \<open>
  Modelled from the spec: \<^verbatim>\<open>Object::CreateList\<close> is missing. It makes one object of each
  symbol of the list, in order; a null list gives no object.
\<close>

definition spec_Object_CreateList ::
  "VAL_pddl_type list option \<Rightarrow> VAL_symbol list option \<Rightarrow> error + Object list" where
  "spec_Object_CreateList types symbols =
     Inr (map (spec_Object_of_symbol types) (case symbols of None \<Rightarrow> [] | Some l \<Rightarrow> l))"

text \<open>
  Modelled from the spec: the lookup of an object by name in the registry is missing; it
  "fails with \<^verbatim>\<open>UnknownObject\<close> if absent". The first object of that name is found.
\<close>

fun spec_lookup_object :: "Object list \<Rightarrow> string \<Rightarrow> error + Object" where
  "spec_lookup_object [] name = Inl (UnknownObject name)"
| "spec_lookup_object (object # objects) name =
     (if object_name object = name then Inr object else spec_lookup_object objects name)"

text \<open>Modelled from the spec: the lookup of each argument token of a text, left to right.\<close>

fun spec_lookup_all :: "Object list \<Rightarrow> string list \<Rightarrow> error + Object list" where
  "spec_lookup_all objects [] = Inr []"
| "spec_lookup_all objects (name # names) =
     (case spec_lookup_object objects name of
        Inl e \<Rightarrow> Inl e
      | Inr object \<Rightarrow>
          (case spec_lookup_all objects names of
             Inl e \<Rightarrow> Inl e
           | Inr rest \<Rightarrow> Inr (object # rest)))"

subsection \<open>Text forms\<close>

text \<open>
  Modelled from the spec: \<^verbatim>\<open>Proposition::to_string\<close> and \<^verbatim>\<open>Action::to_string\<close> are
  missing. The canonical text is \<^verbatim>\<open>name(arg1, arg2, ...)\<close>, and \<^verbatim>\<open>name()\<close> without arguments.
\<close>

fun spec_join :: "string list \<Rightarrow> string" where
  "spec_join [] = []"
| "spec_join [x] = x"
| "spec_join (x # y # rest) = x @ '', '' @ spec_join (y # rest)"

text \<open>Modelled from the spec: the canonical text of a name applied to arguments.\<close>

definition spec_call_text :: "string \<Rightarrow> Object list \<Rightarrow> string" where
  "spec_call_text name arguments = name @ ''('' @ spec_join (map object_name arguments) @ '')''"

text \<open>
  Modelled from the spec: the parser of the text form is missing. The argument tokens are
  what stands between the commas, without blanks.
\<close>

fun spec_split :: "string \<Rightarrow> string \<Rightarrow> string list" where
  "spec_split [] token = [token]"
| "spec_split (c # rest) token =
     (if c = CHR '','' then token # spec_split rest []
      else if c = CHR '' '' then spec_split rest token
      else spec_split rest (token @ [c]))"

text \<open>Modelled from the spec: the name of a text form is what stands before the parenthesis.\<close>

definition spec_head :: "string \<Rightarrow> string" where
  "spec_head text = takeWhile (\<lambda>c. c \<noteq> CHR ''('') text"

text \<open>Modelled from the spec: the argument tokens of a text form, none for \<^verbatim>\<open>name()\<close>.\<close>

definition spec_tokens :: "string \<Rightarrow> string list" where
  "spec_tokens text =
     (let inside = takeWhile (\<lambda>c. c \<noteq> CHR '')'') (drop 1 (dropWhile (\<lambda>c. c \<noteq> CHR ''('') text))
      in if inside = [] then [] else spec_split inside [])"

text \<open>Modelled from the spec: \<^verbatim>\<open>Proposition::to_string\<close> is missing.\<close>

definition spec_Proposition_to_string :: "Proposition \<Rightarrow> string" where
  "spec_Proposition_to_string prop =
     spec_call_text (proposition_name prop) (proposition_arguments prop)"

text \<open>
  Modelled from the spec: the constructor \<^verbatim>\<open>Proposition(pddl, text)\<close> is missing. "Parsing
  the inverse form resolves each argument token to an Object via the registry; fails with
  \<^verbatim>\<open>UnknownObject\<close> if a token does not name a known object."
\<close>

definition spec_Proposition_of_string :: "Pddl \<Rightarrow> string \<Rightarrow> error + Proposition" where
  "spec_Proposition_of_string pddl text =
     (case spec_lookup_all (pddl_objects pddl) (spec_tokens text) of
        Inl e \<Rightarrow> Inl e
      | Inr arguments \<Rightarrow>
          Inr \<lparr>proposition_name = spec_head text, proposition_arguments = arguments\<rparr>)"

subsection \<open>Parameter generator\<close>

text \<open>
  Modelled from the spec: \<^verbatim>\<open>ParameterGenerator\<close> is missing. The candidates of a
  parameter are the objects the type index lists under the parameter's type, "empty
  sequence if the type has no members".
\<close>

definition spec_objects_of :: "ObjectTypeMap \<Rightarrow> Object \<Rightarrow> Object list" where
  "spec_objects_of object_map parameter =
     (case object_map (type_name (object_type parameter)) of None \<Rightarrow> [] | Some v \<Rightarrow> v)"

text \<open>
  Modelled from the spec: \<^verbatim>\<open>ParameterGenerator\<close> is missing. It yields "the Cartesian
  product over" the parameters' candidates, "preserving the type index's per-type ordering
  and parameter order".
\<close>

definition spec_ParameterGenerator :: "ObjectTypeMap \<Rightarrow> Object list \<Rightarrow> Object list list" where
  "spec_ParameterGenerator object_map parameters =
     product_lists (map (spec_objects_of object_map) parameters)"

subsection \<open>Goal evaluator\<close>

text \<open>
  Modelled from the spec: the goal evaluator is missing. And is "true iff all children
  evaluate true (short-circuit on first false)"; a child that fails before that fails the
  evaluation.
\<close>

fun spec_all :: "(error + bool) list \<Rightarrow> error + bool" where
  "spec_all [] = Inr True"
| "spec_all (r # rs) =
     (case r of Inl e \<Rightarrow> Inl e | Inr b \<Rightarrow> if b then spec_all rs else Inr False)"

text \<open>
  Modelled from the spec: the goal evaluator is missing. Or is "true iff any child
  evaluates true (short-circuit on first true)".
\<close>

fun spec_any :: "(error + bool) list \<Rightarrow> error + bool" where
  "spec_any [] = Inr False"
| "spec_any (r # rs) =
     (case r of Inl e \<Rightarrow> Inl e | Inr b \<Rightarrow> if b then Inr True else spec_any rs)"

type_synonym binding = "(string \<times> Object) list"

text \<open>
  Modelled from the spec: the substitution of bound objects is missing. A symbol that is a
  bound variable stands for its object; any other symbol names an object of the registry.
\<close>

fun spec_resolve :: "Registry \<Rightarrow> binding \<Rightarrow> VAL_symbol list \<Rightarrow> error + Object list" where
  "spec_resolve registry env [] = Inr []"
| "spec_resolve registry env (symbol # symbols) =
     (case (case map_of env (symbol_name symbol) of
              Some object \<Rightarrow> Inr object
            | None \<Rightarrow> spec_lookup_object (registry_objects registry) (symbol_name symbol)) of
        Inl e \<Rightarrow> Inl e
      | Inr object \<Rightarrow>
          (case spec_resolve registry env symbols of
             Inl e \<Rightarrow> Inl e
           | Inr rest \<Rightarrow> Inr (object # rest)))"

text \<open>Modelled from the spec: a proposition of the tree with its arguments substituted.\<close>

definition spec_ground ::
  "Registry \<Rightarrow> binding \<Rightarrow> VAL_proposition \<Rightarrow> error + Proposition" where
  "spec_ground registry env prop =
     (case spec_resolve registry env (prop_args prop) of
        Inl e \<Rightarrow> Inl e
      | Inr arguments \<Rightarrow>
          Inr \<lparr>proposition_name = prop_head prop, proposition_arguments = arguments\<rparr>)"

text \<open>
  Modelled from the spec: the bindings of quantified variables, "every binding produced by
  the Parameter Generator over the declared types".
\<close>

definition spec_bindings :: "Registry \<Rightarrow> VAL_symbol list \<Rightarrow> binding list" where
  "spec_bindings registry vars =
     map (zip (map symbol_name vars))
       (spec_ParameterGenerator (registry_object_map registry)
          (map (spec_Object_of_symbol None) vars))"

text \<open>
  Modelled from the spec: the goal evaluator \<^verbatim>\<open>Eval(node, state)\<close> is missing. One
  equation for each node kind of the specification; any other kind "fails with
  \<^verbatim>\<open>UnsupportedGoalConstruct\<close>".
\<close>

fun spec_Eval :: "Registry \<Rightarrow> State \<Rightarrow> binding \<Rightarrow> VAL_goal \<Rightarrow> error + bool" where
  "spec_Eval registry state env (simple_goal prop) =
     (case spec_ground registry env prop of
        Inl e \<Rightarrow> Inl e
      | Inr p \<Rightarrow> Inr (p |\<in>| state))"
| "spec_Eval registry state env (conj_goal goals) =
     spec_all (map (spec_Eval registry state env) goals)"
| "spec_Eval registry state env (disj_goal goals) =
     spec_any (map (spec_Eval registry state env) goals)"
| "spec_Eval registry state env (neg_goal goal) =
     (case spec_Eval registry state env goal of Inl e \<Rightarrow> Inl e | Inr b \<Rightarrow> Inr (\<not> b))"
| "spec_Eval registry state env (qfied_goal E_FORALL vars goal) =
     spec_all (map (\<lambda>b. spec_Eval registry state (b @ env) goal) (spec_bindings registry vars))"
| "spec_Eval registry state env (qfied_goal E_EXISTS vars goal) =
     spec_any (map (\<lambda>b. spec_Eval registry state (b @ env) goal) (spec_bindings registry vars))"
| "spec_Eval registry state env (imply_goal a b) = Inl UnsupportedGoalConstruct"
| "spec_Eval registry state env other_goal = Inl UnsupportedGoalConstruct"

subsection \<open>Actions\<close>

text \<open>
  Modelled from the spec: the reference that an \<^verbatim>\<open>Action\<close>, \<^verbatim>\<open>DerivedPredicate\<close> or
  \<^verbatim>\<open>Formula\<close> keeps "into the facade for object/type lookup".
\<close>

definition spec_registry :: "Pddl \<Rightarrow> Registry" where
  "spec_registry pddl =
     \<lparr>registry_objects = pddl_objects pddl, registry_object_map = pddl_object_map pddl\<rparr>"

text \<open>Modelled from the spec: the propositions of an effect list, arguments substituted.\<close>

fun spec_ground_all ::
  "Registry \<Rightarrow> binding \<Rightarrow> VAL_proposition list \<Rightarrow> error + Proposition list" where
  "spec_ground_all registry env [] = Inr []"
| "spec_ground_all registry env (prop # props) =
     (case spec_ground registry env prop of
        Inl e \<Rightarrow> Inl e
      | Inr p \<Rightarrow>
          (case spec_ground_all registry env props of
             Inl e \<Rightarrow> Inl e
           | Inr rest \<Rightarrow> Inr (p # rest)))"

type_synonym delta = "Proposition list \<times> Proposition list"

text \<open>
  Modelled from the spec: \<^verbatim>\<open>Action::Apply\<close> is missing. "Deltas are collected then
  merged": the propositions to add and those to delete, of all parts of an effect list.
\<close>

fun spec_merge :: "(error + delta) list \<Rightarrow> error + delta" where
  "spec_merge [] = Inr ([], [])"
| "spec_merge (r # rs) =
     (case r of
        Inl e \<Rightarrow> Inl e
      | Inr (adds, dels) \<Rightarrow>
          (case spec_merge rs of
             Inl e \<Rightarrow> Inl e
           | Inr (adds', dels') \<Rightarrow> Inr (adds @ adds', dels @ dels')))"

text \<open>
  Modelled from the spec: \<^verbatim>\<open>Action::Apply\<close> is missing. The delta of an effect list: its
  add and delete propositions, its universally quantified effects "once per binding", and
  its conditional effects whose condition holds in "the pre-transition state".
\<close>

fun spec_delta :: "Registry \<Rightarrow> State \<Rightarrow> binding \<Rightarrow> VAL_effect_lists \<Rightarrow> error + delta" where
  "spec_delta registry state env (effect_lists adds dels foralls conds) =
     spec_merge
       ([case spec_ground_all registry env adds of
           Inl e \<Rightarrow> Inl e
         | Inr ps \<Rightarrow>
             (case spec_ground_all registry env dels of
                Inl e \<Rightarrow> Inl e
              | Inr ds \<Rightarrow> Inr (ps, ds))]
        @ map (\<lambda>(vars, effects).
                 spec_merge (map (\<lambda>b. spec_delta registry state (b @ env) effects)
                                (spec_bindings registry vars)))
            foralls
        @ map (\<lambda>(condition, effects).
                 case spec_Eval registry state env condition of
                   Inl e \<Rightarrow> Inl e
                 | Inr holds \<Rightarrow>
                     if holds then spec_delta registry state env effects else Inr ([], []))
            conds)"

text \<open>Modelled from the spec: arguments are bound "positionally to the Action's parameters".\<close>

definition spec_params_env :: "Object list \<Rightarrow> Object list \<Rightarrow> binding" where
  "spec_params_env parameters arguments = zip (map object_name parameters) arguments"

text \<open>Modelled from the spec: the name, parameters, precondition and effects of an operator.\<close>

definition spec_body_of :: "VAL_operator \<Rightarrow> VAL_operator_body" where
  "spec_body_of op =
     (case op of VAL_action b \<Rightarrow> b | VAL_axiom b \<Rightarrow> b | VAL_other_operator b \<Rightarrow> b)"

text \<open>
  Modelled from the spec: the constructor \<^verbatim>\<open>Action(pddl, op)\<close> is missing. An action is "a
  name, an ordered list of typed parameters, a precondition goal-expression, and an effect
  list".
\<close>

definition spec_Action_of_operator :: "Pddl \<Rightarrow> VAL_operator \<Rightarrow> error + Action" where
  "spec_Action_of_operator pddl op =
     (let body = spec_body_of op in
      Inr \<lparr>action_registry = spec_registry pddl,
           action_name = op_name body,
           action_parameters = map (spec_Object_of_symbol None) (op_parameters body),
           action_precondition = op_precondition body,
           action_effects = op_effects body\<rparr>)"

text \<open>
  Modelled from the spec: the constructor \<^verbatim>\<open>Axiom(pddl, op)\<close> is missing. Axioms are
  "structurally identical" to actions and "retained as loaded data".
\<close>

definition spec_Axiom_of_operator :: "Pddl \<Rightarrow> VAL_operator \<Rightarrow> error + Axiom" where
  "spec_Axiom_of_operator pddl op =
     (let body = spec_body_of op in
      Inr \<lparr>axiom_registry = spec_registry pddl,
           axiom_name = op_name body,
           axiom_parameters = map (spec_Object_of_symbol None) (op_parameters body),
           axiom_precondition = op_precondition body,
           axiom_effects = op_effects body\<rparr>)"

text \<open>
  Modelled from the spec: the constructor \<^verbatim>\<open>Action(pddl, name)\<close> is missing. It "resolves
  the name against the facade's action list (\<^verbatim>\<open>UnknownAction\<close> if absent)".
\<close>

fun spec_find_action :: "Pddl \<Rightarrow> VAL_operator list \<Rightarrow> string \<Rightarrow> error + Action" where
  "spec_find_action pddl [] name = Inl (UnknownAction name)"
| "spec_find_action pddl (op # ops) name =
     (case op of
        VAL_action body \<Rightarrow>
          if op_name body = name then spec_Action_of_operator pddl op
          else spec_find_action pddl ops name
      | _ \<Rightarrow> spec_find_action pddl ops name)"

text \<open>Modelled from the spec: the constructor \<^verbatim>\<open>Action(pddl, name)\<close> is missing.\<close>

definition spec_Action_of_name :: "Pddl \<Rightarrow> string \<Rightarrow> error + Action" where
  "spec_Action_of_name pddl name = spec_find_action pddl (domain_ops (pddl_domain pddl)) name"

text \<open>
  Modelled from the spec: \<^verbatim>\<open>Action::Parse\<close> is missing. "Parsing resolves the name against
  the facade's action list (\<^verbatim>\<open>UnknownAction\<close> if absent) and each argument token against
  the Object Registry (\<^verbatim>\<open>UnknownObject\<close> if absent); arity is the declared parameter count
  (\<^verbatim>\<open>ArityMismatch\<close> if violated)." The specification names no other check.
\<close>

definition spec_Action_Parse :: "Pddl \<Rightarrow> string \<Rightarrow> error + Action \<times> Object list" where
  "spec_Action_Parse pddl action_call =
     (case spec_Action_of_name pddl (spec_head action_call) of
        Inl e \<Rightarrow> Inl e
      | Inr action \<Rightarrow>
     (case spec_lookup_all (pddl_objects pddl) (spec_tokens action_call) of
        Inl e \<Rightarrow> Inl e
      | Inr arguments \<Rightarrow>
          if length arguments \<noteq> length (action_parameters action)
          then Inl (ArityMismatch action_call)
          else Inr (action, arguments)))"

text \<open>
  Modelled from the spec: \<^verbatim>\<open>Action::IsValid\<close> is missing. It "binds args positionally to
  the Action's parameters, substitutes bound Objects into the precondition
  goal-expression, and evaluates it".
\<close>

definition spec_Action_IsValid :: "Action \<Rightarrow> State \<Rightarrow> Object list \<Rightarrow> error + bool" where
  "spec_Action_IsValid action state arguments =
     spec_Eval (action_registry action) state
       (spec_params_env (action_parameters action) arguments) (action_precondition action)"

text \<open>
  Modelled from the spec: \<^verbatim>\<open>Action::Apply\<close> (the form that returns the new state) is
  missing. It "accepts unconditionally" and computes the effect delta on "a working copy
  of the state": the delete propositions leave it, the add propositions join it.
\<close>

definition spec_Action_Apply :: "Action \<Rightarrow> State \<Rightarrow> Object list \<Rightarrow> error + State" where
  "spec_Action_Apply action state arguments =
     (case spec_delta (action_registry action) state
             (spec_params_env (action_parameters action) arguments) (action_effects action) of
        Inl e \<Rightarrow> Inl e
      | Inr (adds, dels) \<Rightarrow> Inr ((state |-| fset_of_list dels) |\<union>| fset_of_list adds))"

text \<open>
  Modelled from the spec: \<^verbatim>\<open>Action::Apply\<close> (the form that changes the state in place) is
  missing. One delete proposition: it leaves the state if the state holds it, and then the
  "changed" flag is set.
\<close>

definition spec_erase :: "bool \<times> State \<Rightarrow> Proposition \<Rightarrow> bool \<times> State" where
  "spec_erase changed_state p =
     (if p |\<in>| snd changed_state then (True, snd changed_state |-| {|p|}) else changed_state)"

text \<open>
  Modelled from the spec: \<^verbatim>\<open>Action::Apply\<close> (the form that changes the state in place) is
  missing. One add proposition: it joins the state if the state lacks it, and then the
  "changed" flag is set.
\<close>

definition spec_insert :: "bool \<times> State \<Rightarrow> Proposition \<Rightarrow> bool \<times> State" where
  "spec_insert changed_state p =
     (if p |\<in>| snd changed_state then changed_state
      else (True, finsert p (snd changed_state)))"

text \<open>
  Modelled from the spec: \<^verbatim>\<open>Action::Apply\<close> (the form that changes the state in place) is
  missing. It returns "a boolean changed flag while mutating the state in place": the
  delta is computed on the state as given, then the delete propositions are removed and
  the add propositions inserted one by one.
\<close>

definition spec_Action_Apply_in_place ::
  "Action \<Rightarrow> Object list \<Rightarrow> State \<Rightarrow> error + bool \<times> State" where
  "spec_Action_Apply_in_place action arguments state =
     (case spec_delta (action_registry action) state
             (spec_params_env (action_parameters action) arguments) (action_effects action) of
        Inl e \<Rightarrow> Inl e
      | Inr (adds, dels) \<Rightarrow> Inr (foldl spec_insert (foldl spec_erase (False, state) dels) adds))"

text \<open>Modelled from the spec: \<^verbatim>\<open>Action::to_string\<close> is missing; \<^verbatim>\<open>name(arg1, arg2, ...)\<close>.\<close>

definition spec_Action_to_string :: "Action \<Rightarrow> Object list \<Rightarrow> string" where
  "spec_Action_to_string action arguments = spec_call_text (action_name action) arguments"

subsection \<open>Derived predicates\<close>

text \<open>
  Modelled from the spec: the constructor \<^verbatim>\<open>DerivedPredicate(pddl, drv)\<close> is missing. A
  derived predicate is "a head predicate pattern over its own typed parameters and a body
  goal-expression".
\<close>

definition spec_DerivedPredicate_of_rule ::
  "Pddl \<Rightarrow> VAL_derivation_rule \<Rightarrow> error + DerivedPredicate" where
  "spec_DerivedPredicate_of_rule pddl drv =
     Inr \<lparr>derived_registry = spec_registry pddl,
          derived_head = prop_head (drv_head drv),
          derived_parameters = map (spec_Object_of_symbol None) (prop_args (drv_head drv)),
          derived_body = drv_body drv\<rparr>"

text \<open>Modelled from the spec: "all bindings of its parameters via the Parameter Generator".\<close>

definition spec_groundings :: "DerivedPredicate \<Rightarrow> Object list list" where
  "spec_groundings predicate =
     spec_ParameterGenerator (registry_object_map (derived_registry predicate))
       (derived_parameters predicate)"

text \<open>
  Modelled from the spec: \<^verbatim>\<open>DerivedPredicate::Apply\<close> is missing. For one derived predicate:
  "evaluate its body goal-expression against the current (already partially derived)
  state, and if true, add the corresponding head proposition".
\<close>

fun spec_derive_one :: "DerivedPredicate \<Rightarrow> Object list list \<Rightarrow> State \<Rightarrow> error + State" where
  "spec_derive_one predicate [] state = Inr state"
| "spec_derive_one predicate (arguments # rest) state =
     (case spec_Eval (derived_registry predicate) state
             (spec_params_env (derived_parameters predicate) arguments)
             (derived_body predicate) of
        Inl e \<Rightarrow> Inl e
      | Inr holds \<Rightarrow>
          spec_derive_one predicate rest
            (if holds
             then finsert \<lparr>proposition_name = derived_head predicate,
                           proposition_arguments = arguments\<rparr> state
             else state))"

text \<open>Modelled from the spec: "the full pass over all derived predicates".\<close>

fun spec_derive_pass :: "DerivedPredicate list \<Rightarrow> State \<Rightarrow> error + State" where
  "spec_derive_pass [] state = Inr state"
| "spec_derive_pass (predicate # rest) state =
     (case spec_derive_one predicate (spec_groundings predicate) state of
        Inl e \<Rightarrow> Inl e
      | Inr state' \<Rightarrow> spec_derive_pass rest state')"

text \<open>
  Modelled from the spec: "repeat the full pass over all derived predicates until a pass
  adds no new proposition (fixpoint)"; a closure that "does not stabilize within the
  provable bound" is "a fatal invariant violation".
\<close>

fun spec_closure :: "nat \<Rightarrow> DerivedPredicate list \<Rightarrow> State \<Rightarrow> error + State" where
  "spec_closure 0 predicates state =
     Inl (RuntimeError ''derived-predicate closure does not stabilize'')"
| "spec_closure (Suc passes) predicates state =
     (case spec_derive_pass predicates state of
        Inl e \<Rightarrow> Inl e
      | Inr state' \<Rightarrow>
          if state' = state then Inr state else spec_closure passes predicates state')"

text \<open>
  Modelled from the spec: the bound of the closure, "at most (number of derived predicates
  x number of possible head groundings) passes", and one more pass to see the fixpoint.
\<close>

definition spec_pass_bound :: "DerivedPredicate list \<Rightarrow> nat" where
  "spec_pass_bound predicates =
     Suc (length predicates * sum_list (map (\<lambda>p. length (spec_groundings p)) predicates))"

text \<open>
  Modelled from the spec: the static \<^verbatim>\<open>DerivedPredicate::Apply(predicates, state)\<close> is
  missing. "The combined operation returns whether anything changed."
\<close>

definition spec_DerivedPredicate_Apply ::
  "DerivedPredicate list \<Rightarrow> State \<Rightarrow> error + bool \<times> State" where
  "spec_DerivedPredicate_Apply predicates state =
     (case spec_closure (spec_pass_bound predicates) predicates state of
        Inl e \<Rightarrow> Inl e
      | Inr state' \<Rightarrow> Inr (state' \<noteq> state, state'))"

subsection \<open>Goal formula\<close>

text \<open>Modelled from the spec: the constructor \<^verbatim>\<open>Formula(pddl, goal)\<close> is missing.\<close>

definition spec_Formula_of_goal :: "Pddl \<Rightarrow> VAL_goal \<Rightarrow> error + Formula" where
  "spec_Formula_of_goal pddl goal =
     Inr \<lparr>formula_registry = spec_registry pddl, formula_goal = goal\<rparr>"

text \<open>
  Modelled from the spec: the call operator of \<^verbatim>\<open>Formula\<close> is missing; it is the goal
  evaluator on the goal expression, with no variable bound.
\<close>

definition spec_Formula_call :: "Formula \<Rightarrow> State \<Rightarrow> error + bool" where
  "spec_Formula_call formula state =
     spec_Eval (formula_registry formula) state [] (formula_goal formula)"

subsection \<open>Parser\<close>

text \<open>
  Modelled from the spec: the parser \<^verbatim>\<open>yyparse\<close> is an external collaborator. A file holds
  a domain or a problem; parsing a file sets the matching pointer of the analysis, and a
  file that is missing or "cannot be produced" as a tree sets nothing.
\<close>

datatype VAL_file = Domain_file VAL_domain | Problem_file VAL_problem

text \<open>Modelled from the spec: the parser \<^verbatim>\<open>yyparse\<close>, over a table of the files' trees.\<close>

definition spec_yyparse :: "(string \<rightharpoonup> VAL_file) \<Rightarrow> string \<Rightarrow> VAL_analysis \<Rightarrow> VAL_analysis" where
  "spec_yyparse files filename analysis =
     (case files filename of
        None \<Rightarrow> analysis
      | Some (Domain_file domain) \<Rightarrow> analysis\<lparr>the_domain := Some domain\<rparr>
      | Some (Problem_file problem) \<Rightarrow> analysis\<lparr>the_problem := Some problem\<rparr>)"

subsection \<open>The missing classes as one value\<close>

text \<open>Modelled from the spec: all functions that \<^verbatim>\<open>pddl.cc\<close> calls and does not define.\<close>

definition spec_symbolic :: "(string \<rightharpoonup> VAL_file) \<Rightarrow> symbolic" where
  "spec_symbolic files =
     \<lparr>yyparse = spec_yyparse files,
      Object_CreateList = spec_Object_CreateList,
      Object_of_symbol = spec_Object_of_symbol,
      Proposition_of_string = spec_Proposition_of_string,
      Proposition_to_string = spec_Proposition_to_string,
      Action_of_operator = spec_Action_of_operator,
      Action_of_name = spec_Action_of_name,
      Action_Parse = spec_Action_Parse,
      Action_IsValid = spec_Action_IsValid,
      Action_Apply = spec_Action_Apply,
      Action_Apply_in_place = spec_Action_Apply_in_place,
      Action_to_string = spec_Action_to_string,
      Axiom_of_operator = spec_Axiom_of_operator,
      DerivedPredicate_of_rule = spec_DerivedPredicate_of_rule,
      DerivedPredicate_Apply = spec_DerivedPredicate_Apply,
      Formula_of_goal = spec_Formula_of_goal,
      Formula_call = spec_Formula_call,
      ParameterGenerator = spec_ParameterGenerator\<rparr>"

section \<open>Two domains to run the functions on\<close>

subsection \<open>The scenario of the specification\<close>

text \<open>
  Type \<^verbatim>\<open>block\<close>; predicate \<^verbatim>\<open>on-table(?b - block)\<close>; action \<^verbatim>\<open>pick-up(?b - block)\<close> with
  precondition \<^verbatim>\<open>(on-table ?b)\<close> and effect \<^verbatim>\<open>(not (on-table ?b))\<close>; objects \<^verbatim>\<open>a\<close>, \<^verbatim>\<open>b\<close>;
  initial state \<^verbatim>\<open>{on-table(a), on-table(b)}\<close>; goal
  \<^verbatim>\<open>(and (not (on-table a)) (not (on-table b)))\<close>.
\<close>

definition block_types :: "VAL_pddl_type list" where
  "block_types =
     [\<lparr>pddl_type_name = ''block'', pddl_type_parent = ''object''\<rparr>,
      \<lparr>pddl_type_name = ''table'', pddl_type_parent = ''object''\<rparr>]"

definition var_b :: VAL_symbol where
  "var_b = \<lparr>symbol_name = ''?b'', symbol_type = ''block''\<rparr>"

definition sym_a :: VAL_symbol where
  "sym_a = \<lparr>symbol_name = ''a'', symbol_type = ''block''\<rparr>"

definition sym_b :: VAL_symbol where
  "sym_b = \<lparr>symbol_name = ''b'', symbol_type = ''block''\<rparr>"

definition sym_t :: VAL_symbol where
  "sym_t = \<lparr>symbol_name = ''t'', symbol_type = ''table''\<rparr>"

definition on_table :: "VAL_symbol \<Rightarrow> VAL_proposition" where
  "on_table x = \<lparr>prop_head = ''on-table'', prop_args = [x]\<rparr>"

definition pick_up :: VAL_operator where
  "pick_up = VAL_action
     \<lparr>op_name = ''pick-up'', op_parameters = [var_b],
      op_precondition = simple_goal (on_table var_b),
      op_effects = effect_lists [] [on_table var_b] [] []\<rparr>"

definition blocks_domain :: VAL_domain where
  "blocks_domain =
     \<lparr>domain_name = ''blocks'', domain_types = Some block_types, domain_constants = None,
      domain_ops = [pick_up], domain_drvs = []\<rparr>"

definition blocks_problem :: VAL_problem where
  "blocks_problem =
     \<lparr>problem_name = ''two-blocks'', problem_objects = Some [sym_a, sym_b],
      problem_initial_state = effect_lists [on_table sym_a, on_table sym_b] [] [] [],
      problem_the_goal =
        conj_goal [neg_goal (simple_goal (on_table sym_a)),
                   neg_goal (simple_goal (on_table sym_b))]\<rparr>"

definition blocks :: symbolic where
  "blocks = spec_symbolic
     [''domain.pddl'' \<mapsto> Domain_file blocks_domain,
      ''problem.pddl'' \<mapsto> Problem_file blocks_problem]"

definition blocks_pddl :: Pddl where
  "blocks_pddl =
     (case Pddl_new blocks ''domain.pddl'' ''problem.pddl'' of
        Inr pddl \<Rightarrow> pddl
      | Inl e \<Rightarrow> unset_Pddl new_analysis blocks_domain blocks_problem)"

definition block_a :: Object where
  "block_a = spec_Object_of_symbol (Some block_types) sym_a"

definition block_b :: Object where
  "block_b = spec_Object_of_symbol (Some block_types) sym_b"

definition table_t :: Object where
  "table_t = spec_Object_of_symbol (Some block_types) sym_t"

definition mk_prop :: "string \<Rightarrow> Object list \<Rightarrow> Proposition" where
  "mk_prop name arguments = \<lparr>proposition_name = name, proposition_arguments = arguments\<rparr>"

subsection \<open>A hand, a table and paint\<close>

text \<open>
  The table \<^verbatim>\<open>t\<close> is a constant of the domain; the blocks \<^verbatim>\<open>a\<close> and \<^verbatim>\<open>b\<close> are objects of
  the problem. \<^verbatim>\<open>grasp(?b - block)\<close> has precondition \<^verbatim>\<open>(on-table ?b)\<close> and effects
  \<^verbatim>\<open>(holding ?b)\<close>, \<^verbatim>\<open>(not (on-table ?b))\<close>. \<^verbatim>\<open>paint(?b - block)\<close> has precondition
  \<^verbatim>\<open>(not (painted ?b))\<close> and effect \<^verbatim>\<open>(painted ?b)\<close>. The derived predicate \<^verbatim>\<open>(hand-full)\<close>
  holds when \<^verbatim>\<open>(exists (?b - block) (holding ?b))\<close>, and \<^verbatim>\<open>(hand-empty)\<close> when
  \<^verbatim>\<open>(forall (?b - block) (not (holding ?b)))\<close>. Initially both blocks are on the table; the
  goal is \<^verbatim>\<open>(hand-empty)\<close>.
\<close>

definition holding :: "VAL_symbol \<Rightarrow> VAL_proposition" where
  "holding x = \<lparr>prop_head = ''holding'', prop_args = [x]\<rparr>"

definition painted :: "VAL_symbol \<Rightarrow> VAL_proposition" where
  "painted x = \<lparr>prop_head = ''painted'', prop_args = [x]\<rparr>"

definition hand_full :: VAL_proposition where
  "hand_full = \<lparr>prop_head = ''hand-full'', prop_args = []\<rparr>"

definition hand_empty :: VAL_proposition where
  "hand_empty = \<lparr>prop_head = ''hand-empty'', prop_args = []\<rparr>"

definition grasp :: VAL_operator where
  "grasp = VAL_action
     \<lparr>op_name = ''grasp'', op_parameters = [var_b],
      op_precondition = simple_goal (on_table var_b),
      op_effects = effect_lists [holding var_b] [on_table var_b] [] []\<rparr>"

definition paint :: VAL_operator where
  "paint = VAL_action
     \<lparr>op_name = ''paint'', op_parameters = [var_b],
      op_precondition = neg_goal (simple_goal (painted var_b)),
      op_effects = effect_lists [painted var_b] [] [] []\<rparr>"

definition hand_domain :: VAL_domain where
  "hand_domain =
     \<lparr>domain_name = ''hand'', domain_types = Some block_types,
      domain_constants = Some [sym_t],
      domain_ops = [grasp, paint],
      domain_drvs =
        [\<lparr>drv_head = hand_full,
          drv_body = qfied_goal E_EXISTS [var_b] (simple_goal (holding var_b))\<rparr>,
         \<lparr>drv_head = hand_empty,
          drv_body = qfied_goal E_FORALL [var_b] (neg_goal (simple_goal (holding var_b)))\<rparr>]\<rparr>"

definition hand_problem :: VAL_problem where
  "hand_problem =
     \<lparr>problem_name = ''hand-two-blocks'', problem_objects = Some [sym_a, sym_b],
      problem_initial_state = effect_lists [on_table sym_a, on_table sym_b] [] [] [],
      problem_the_goal = simple_goal hand_empty\<rparr>"

definition hand :: symbolic where
  "hand = spec_symbolic
     [''hand-domain.pddl'' \<mapsto> Domain_file hand_domain,
      ''hand-problem.pddl'' \<mapsto> Problem_file hand_problem]"

definition hand_pddl :: Pddl where
  "hand_pddl =
     (case Pddl_new hand ''hand-domain.pddl'' ''hand-problem.pddl'' of
        Inr pddl \<Rightarrow> pddl
      | Inl e \<Rightarrow> unset_Pddl new_analysis hand_domain hand_problem)"

section \<open>The fold that the specification describes for \<^verbatim>\<open>IsValidPlan\<close>\<close>

text \<open>
  What the precondition of an action call answers in a state: the call is parsed and
  \<^verbatim>\<open>Action::IsValid\<close> is asked. \<open>None\<close> when one of the two throws.
\<close>

definition precondition :: "symbolic \<Rightarrow> Pddl \<Rightarrow> State \<Rightarrow> string \<Rightarrow> bool option" where
  "precondition lib pddl state action_call =
     (case Action_Parse lib pddl action_call of
        Inl e \<Rightarrow> None
      | Inr (action, arguments) \<Rightarrow>
          (case Action_IsValid lib action state arguments of
             Inl e \<Rightarrow> None
           | Inr valid \<Rightarrow> Some valid))"

text \<open>
  One step from the state reached so far: the action call parses, its precondition holds
  in the state, \<^verbatim>\<open>Action::Apply\<close> applies the action to the state, and
  \<^verbatim>\<open>DerivedPredicate::Apply\<close> closes the result under the derived predicates of the facade.
  \<open>None\<close> when the precondition does not hold or a function throws.
\<close>

definition advance :: "symbolic \<Rightarrow> Pddl \<Rightarrow> State \<Rightarrow> string \<Rightarrow> State option" where
  "advance lib pddl state action_call =
     (case Action_Parse lib pddl action_call of
        Inl e \<Rightarrow> None
      | Inr (action, arguments) \<Rightarrow>
          (case Action_IsValid lib action state arguments of
             Inr True \<Rightarrow>
               (case Action_Apply_in_place lib action arguments state of
                  Inl e \<Rightarrow> None
                | Inr (is_changed, applied) \<Rightarrow>
                    (case DerivedPredicate_Apply lib (pddl_derived_predicates pddl) applied of
                       Inl e \<Rightarrow> None
                     | Inr (changed, closed) \<Rightarrow> Some closed))
           | _ \<Rightarrow> None))"

text \<open>The fold of the steps over a sequence of action calls, from a given state.\<close>

definition fold_plan :: "symbolic \<Rightarrow> Pddl \<Rightarrow> State \<Rightarrow> string list \<Rightarrow> State option" where
  "fold_plan lib pddl state action_skeleton =
     foldl (\<lambda>reached action_call. Option.bind reached (\<lambda>s. advance lib pddl s action_call))
       (Some state) action_skeleton"

section \<open>What the specification asks of the two forms of \<^verbatim>\<open>Action::Apply\<close>\<close>

text \<open>
  \<^verbatim>\<open>Action::Apply\<close> "returns the new State (pure form) or a boolean changed flag while
  mutating the state in place (performance form); both forms must be semantically
  equivalent": on the same action, arguments and state both throw the same error, or the
  state left by the second is the state returned by the first.
\<close>

definition Apply_forms_agree :: "symbolic \<Rightarrow> Action \<Rightarrow> Object list \<Rightarrow> State \<Rightarrow> bool" where
  "Apply_forms_agree lib action arguments state =
     ((case Action_Apply_in_place lib action arguments state of
         Inl e \<Rightarrow> Inl e
       | Inr (is_changed, state') \<Rightarrow> Inr state') =
      Action_Apply lib action state arguments)"

section \<open>Propositions that the text form of the specification can carry\<close>

text \<open>
  A name that the text form \<^verbatim>\<open>name(arg1, arg2, ...)\<close> keeps apart from its punctuation: not
  empty, and without parenthesis, comma or blank.
\<close>

definition plain :: "string \<Rightarrow> bool" where
  "plain name = (name \<noteq> [] \<and>
     list_all (\<lambda>c. c \<noteq> CHR ''('' \<and> c \<noteq> CHR '')'' \<and> c \<noteq> CHR '','' \<and> c \<noteq> CHR '' '') name)"

text \<open>
  A proposition over objects of the registry: the predicate name has no opening
  parenthesis, and each argument has a plain name under which the registry finds it.
\<close>

definition well_formed :: "Pddl \<Rightarrow> Proposition \<Rightarrow> bool" where
  "well_formed pddl p =
     (CHR ''('' \<notin> set (proposition_name p) \<and>
      list_all (\<lambda>object. plain (object_name object) \<and>
                  spec_lookup_object (pddl_objects pddl) (object_name object) = Inr object)
        (proposition_arguments p))"

section \<open>The listing that the specification describes for \<^verbatim>\<open>ListValidActions\<close>\<close>










section \<open>Properties of \<^verbatim>\<open>ParsePddl\<close>\<close>

text \<open>
  Claim C8 says that a domain file or a problem file that cannot be parsed aborts the
  construction with an error that names the file. \<^verbatim>\<open>ParsePddl\<close> tests \<^verbatim>\<open>the_domain\<close> after
  both parses. With a domain that parses and a problem file that does not, it returns an
  analysis whose \<^verbatim>\<open>the_problem\<close> is null, and the constructor dereferences it; no error
  names the problem file.
\<close>

theorem ParsePddl_unparsed_problem:
  "ParsePddl blocks ''domain.pddl'' ''no-problem.pddl'' =
     Inr \<lparr>the_domain = Some blocks_domain, the_problem = None\<rparr> \<and>
   thrown (Pddl_new blocks ''domain.pddl'' ''no-problem.pddl'') = Some NullDereference"
  by code_simp

text \<open>A domain file that cannot be parsed is reported, and the message names it.\<close>

lemma ParsePddl_unparsed_domain:
  "the_domain (yyparse lib filename_domain new_analysis) = None \<Longrightarrow>
   ParsePddl lib filename_domain filename_problem =
     Inl (RuntimeError (''ParsePddl(): Unable to parse domain from file: '' @ filename_domain))"
  by (simp add: ParsePddl_def)

section \<open>Properties of \<^verbatim>\<open>GetObjects\<close> and \<^verbatim>\<open>CreateObjectTypeMap\<close>\<close>

lemma push_back_at_apply:
  "push_back_at object m t T = (if T = t then Some (entries_at m t @ [object]) else m T)"
  by (simp add: push_back_at_def entries_at_def)

lemma entries_at_push_back_at:
  "entries_at (push_back_at object m t) T =
     (if T = t then entries_at m t @ [object] else entries_at m T)"
  by (simp add: push_back_at_def entries_at_def)

lemma foldl_push_back_at:
  "foldl (push_back_at object) m ts T =
     (if T \<in> set ts then Some (entries_at m T @ replicate (count_list ts T) object) else m T)"
proof (induction ts arbitrary: m)
  case Nil
  show ?case by simp
next
  case (Cons t ts)
  have "foldl (push_back_at object) m (t # ts) T =
        foldl (push_back_at object) (push_back_at object m t) ts T"
    by simp
  also have "\<dots> = (if T \<in> set ts
      then Some (entries_at (push_back_at object m t) T @ replicate (count_list ts T) object)
      else push_back_at object m t T)"
    by (rule Cons.IH)
  also have "\<dots> = (if T \<in> set (t # ts)
      then Some (entries_at m T @ replicate (count_list (t # ts) T) object) else m T)"
    by (simp add: push_back_at_apply entries_at_push_back_at replicate_app_Cons_same)
  finally show ?case .
qed

lemma push_back_types_apply:
  "push_back_types m object T =
     (if T \<in> set (ListTypes (object_type object))
      then Some (entries_at m T @ replicate (count_list (ListTypes (object_type object)) T) object)
      else m T)"
  by (simp add: push_back_types_def foldl_push_back_at)

lemma entries_at_push_back_types:
  "entries_at (push_back_types m object) T =
     entries_at m T @ replicate (count_list (ListTypes (object_type object)) T) object"
  by (simp add: entries_at_def push_back_types_apply count_list_0_iff)

lemma foldl_push_back_types:
  "foldl push_back_types m objects T =
     (if \<exists>object \<in> set objects. T \<in> set (ListTypes (object_type object))
      then Some (entries_at m T @
        concat (map (\<lambda>object. replicate (count_list (ListTypes (object_type object)) T) object)
                  objects))
      else m T)"
proof (induction objects arbitrary: m)
  case Nil
  show ?case by simp
next
  case (Cons x xs)
  have "foldl push_back_types m (x # xs) T = foldl push_back_types (push_back_types m x) xs T"
    by simp
  also have "\<dots> = (if \<exists>object \<in> set xs. T \<in> set (ListTypes (object_type object))
      then Some (entries_at (push_back_types m x) T @
        concat (map (\<lambda>object. replicate (count_list (ListTypes (object_type object)) T) object) xs))
      else push_back_types m x T)"
    by (rule Cons.IH)
  also have "\<dots> = (if \<exists>object \<in> set (x # xs). T \<in> set (ListTypes (object_type object))
      then Some (entries_at m T @
        concat (map (\<lambda>object. replicate (count_list (ListTypes (object_type object)) T) object)
                  (x # xs)))
      else m T)"
    by (auto simp add: push_back_types_apply entries_at_push_back_types count_list_0_iff)
  finally show ?case .
qed

lemma count_list_distinct: "distinct xs \<Longrightarrow> count_list xs x = (if x \<in> set xs then 1 else 0)"
  by (induction xs) auto

lemma replicate_filter:
  "\<forall>object \<in> set objects. distinct (ListTypes (object_type object)) \<Longrightarrow>
   concat (map (\<lambda>object. replicate (count_list (ListTypes (object_type object)) T) object)
             objects) =
   filter (\<lambda>object. T \<in> set (ListTypes (object_type object))) objects"
  by (induction objects) (auto simp: count_list_distinct)

lemma CreateObjectTypeMap_apply:
  "CreateObjectTypeMap objects T =
     (if \<exists>object \<in> set objects. T \<in> set (ListTypes (object_type object))
      then Some (concat (map (\<lambda>object.
                   replicate (count_list (ListTypes (object_type object)) T) object) objects))
      else None)"
  by (simp add: CreateObjectTypeMap_def foldl_push_back_types entries_at_def)

lemma GetObjects_Inr:
  "GetObjects lib domain problem = Inr objects \<longleftrightarrow>
     (\<exists>constants objects_2.
        Object_CreateList lib (domain_types domain) (domain_constants domain) = Inr constants \<and>
        Object_CreateList lib (domain_types domain) (problem_objects problem) = Inr objects_2 \<and>
        objects = constants @ objects_2)"
  by (auto simp: GetObjects_def split: sum.splits)

lemma Pddl_new_registry:
  "Pddl_new lib domain_pddl problem_pddl = Inr pddl \<Longrightarrow>
   the_domain (pddl_analysis pddl) = Some (pddl_domain pddl) \<and>
   the_problem (pddl_analysis pddl) = Some (pddl_problem pddl) \<and>
   GetObjects lib (pddl_domain pddl) (pddl_problem pddl) = Inr (pddl_objects pddl) \<and>
   pddl_object_map pddl = CreateObjectTypeMap (pddl_objects pddl)"
  by (auto simp: Pddl_new_def Let_def unset_Pddl_def split: sum.splits option.splits)

lemma Pddl_new_hand: "Pddl_new hand ''hand-domain.pddl'' ''hand-problem.pddl'' = Inr hand_pddl"
proof -
  have "thrown (Pddl_new hand ''hand-domain.pddl'' ''hand-problem.pddl'') = None"
    by code_simp
  then show ?thesis
    by (simp add: hand_pddl_def thrown_def split: sum.splits)
qed

text \<open>
  Claim C9. In every facade that the constructor returns, the object list is the objects
  made of the domain constants followed by the objects made of the problem objects. The
  type index of the facade holds, under each type name, the objects of that list that
  satisfy the type, in the order of the list, and a type that no object satisfies has no
  entry. An object stands under a type once for each time its \<^verbatim>\<open>ListTypes\<close> names the type:
  exactly once when \<^verbatim>\<open>ListTypes\<close> has no repetition.
\<close>

theorem object_list_and_type_index:
  "Pddl_new lib domain_pddl problem_pddl = Inr pddl \<Longrightarrow>
   the_domain (pddl_analysis pddl) = Some (pddl_domain pddl) \<and>
   the_problem (pddl_analysis pddl) = Some (pddl_problem pddl) \<and>
   (\<exists>constants objects_2.
      Object_CreateList lib (domain_types (pddl_domain pddl))
        (domain_constants (pddl_domain pddl)) = Inr constants \<and>
      Object_CreateList lib (domain_types (pddl_domain pddl))
        (problem_objects (pddl_problem pddl)) = Inr objects_2 \<and>
      pddl_objects pddl = constants @ objects_2) \<and>
   set (entries_at (pddl_object_map pddl) T) =
     {object \<in> set (pddl_objects pddl). T \<in> set (ListTypes (object_type object))} \<and>
   (pddl_object_map pddl T = None \<longleftrightarrow>
      (\<forall>object \<in> set (pddl_objects pddl). T \<notin> set (ListTypes (object_type object)))) \<and>
   ((\<forall>object \<in> set (pddl_objects pddl). distinct (ListTypes (object_type object))) \<longrightarrow>
      entries_at (pddl_object_map pddl) T =
        filter (\<lambda>object. T \<in> set (ListTypes (object_type object))) (pddl_objects pddl))"
proof -
  assume "Pddl_new lib domain_pddl problem_pddl = Inr pddl"
  from Pddl_new_registry [OF this] have
    domain: "the_domain (pddl_analysis pddl) = Some (pddl_domain pddl)" and
    problem: "the_problem (pddl_analysis pddl) = Some (pddl_problem pddl)" and
    objects: "GetObjects lib (pddl_domain pddl) (pddl_problem pddl) = Inr (pddl_objects pddl)" and
    index: "pddl_object_map pddl = CreateObjectTypeMap (pddl_objects pddl)"
    by simp_all
  from objects have "\<exists>constants objects_2.
      Object_CreateList lib (domain_types (pddl_domain pddl))
        (domain_constants (pddl_domain pddl)) = Inr constants \<and>
      Object_CreateList lib (domain_types (pddl_domain pddl))
        (problem_objects (pddl_problem pddl)) = Inr objects_2 \<and>
      pddl_objects pddl = constants @ objects_2"
    by (simp only: GetObjects_Inr)
  moreover have "set (entries_at (pddl_object_map pddl) T) =
     {object \<in> set (pddl_objects pddl). T \<in> set (ListTypes (object_type object))}"
    by (auto simp: index entries_at_def CreateObjectTypeMap_apply count_list_0_iff)
  moreover have "pddl_object_map pddl T = None \<longleftrightarrow>
      (\<forall>object \<in> set (pddl_objects pddl). T \<notin> set (ListTypes (object_type object)))"
    by (simp add: index CreateObjectTypeMap_apply)
  moreover have "(\<forall>object \<in> set (pddl_objects pddl). distinct (ListTypes (object_type object))) \<longrightarrow>
      entries_at (pddl_object_map pddl) T =
        filter (\<lambda>object. T \<in> set (ListTypes (object_type object))) (pddl_objects pddl)"
    by (simp add: index entries_at_def CreateObjectTypeMap_apply replicate_filter)
  ultimately show ?thesis
    using domain problem by (intro conjI)
qed

text \<open>
  In the facade of the domain with the hand, the constant \<^verbatim>\<open>t\<close> comes before the objects
  \<^verbatim>\<open>a\<close> and \<^verbatim>\<open>b\<close>, type \<^verbatim>\<open>block\<close> lists the two blocks, type \<^verbatim>\<open>object\<close> lists all three,
  and there is no entry for a type \<^verbatim>\<open>robot\<close>.
\<close>

theorem object_list_and_type_index_witness:
  "Pddl_new hand ''hand-domain.pddl'' ''hand-problem.pddl'' = Inr hand_pddl \<and>
   Object_CreateList hand (domain_types hand_domain) (domain_constants hand_domain) =
     Inr [table_t] \<and>
   Object_CreateList hand (domain_types hand_domain) (problem_objects hand_problem) =
     Inr [block_a, block_b] \<and>
   pddl_objects hand_pddl = [table_t, block_a, block_b] \<and>
   list_all (\<lambda>object. distinct (ListTypes (object_type object))) (pddl_objects hand_pddl) \<and>
   entries_at (pddl_object_map hand_pddl) ''block'' = [block_a, block_b] \<and>
   entries_at (pddl_object_map hand_pddl) ''object'' = [table_t, block_a, block_b] \<and>
   pddl_object_map hand_pddl ''robot'' = None"
proof -
  have constants:
    "Object_CreateList hand (domain_types hand_domain) (domain_constants hand_domain) =
       Inr [table_t]"
    by code_simp
  have objects_2:
    "Object_CreateList hand (domain_types hand_domain) (problem_objects hand_problem) =
       Inr [block_a, block_b]"
    by code_simp
  have domain: "pddl_domain hand_pddl = hand_domain"
    by code_simp
  have problem: "pddl_problem hand_pddl = hand_problem"
    by code_simp
  have types: "list_all (\<lambda>object. distinct (ListTypes (object_type object)))
      [table_t, block_a, block_b]"
    by code_simp
  have block: "filter (\<lambda>object. ''block'' \<in> set (ListTypes (object_type object)))
      [table_t, block_a, block_b] = [block_a, block_b]"
    by code_simp
  have object: "filter (\<lambda>object. ''object'' \<in> set (ListTypes (object_type object)))
      [table_t, block_a, block_b] = [table_t, block_a, block_b]"
    by code_simp
  have robot: "list_all (\<lambda>object. ''robot'' \<notin> set (ListTypes (object_type object)))
      [table_t, block_a, block_b]"
    by code_simp
  note at_hand = object_list_and_type_index [OF Pddl_new_hand]
  from at_hand [THEN conjunct2, THEN conjunct2, THEN conjunct1] constants objects_2 domain problem
  have list: "pddl_objects hand_pddl = [table_t, block_a, block_b]"
    by auto
  note listed = at_hand [THEN conjunct2, THEN conjunct2, THEN conjunct2, THEN conjunct2,
    THEN conjunct2]
  note absent = at_hand [THEN conjunct2, THEN conjunct2, THEN conjunct2, THEN conjunct2,
    THEN conjunct1]
  have "entries_at (pddl_object_map hand_pddl) ''block'' = [block_a, block_b]"
    using listed [of "''block''"] types block by (simp add: list list_all_iff)
  moreover have "entries_at (pddl_object_map hand_pddl) ''object'' = [table_t, block_a, block_b]"
    using listed [of "''object''"] types object by (simp add: list list_all_iff)
  moreover have "pddl_object_map hand_pddl ''robot'' = None"
    using absent [of "''robot''"] robot by (simp add: list list_all_iff)
  moreover have "list_all (\<lambda>object. distinct (ListTypes (object_type object)))
      (pddl_objects hand_pddl)"
    using types by (simp only: list)
  ultimately show ?thesis
    using Pddl_new_hand constants objects_2 list by (intro conjI)
qed

section \<open>Properties of \<^verbatim>\<open>IsValidPlan\<close>\<close>

lemma foldl_bind_None:
  "foldl (\<lambda>reached x. Option.bind reached (f x)) None xs = None"
  by (induction xs) simp_all

lemma fold_plan_Nil: "fold_plan lib pddl state [] = Some state"
  by (simp add: fold_plan_def)

lemma fold_plan_Cons:
  "fold_plan lib pddl state (action_call # rest) =
     (case advance lib pddl state action_call of
        None \<Rightarrow> None
      | Some state' \<Rightarrow> fold_plan lib pddl state' rest)"
  by (simp add: fold_plan_def foldl_bind_None split: option.splits)

lemma fold_plan_append:
  "fold_plan lib pddl state (before @ after) =
     (case fold_plan lib pddl state before of
        None \<Rightarrow> None
      | Some reached \<Rightarrow> fold_plan lib pddl reached after)"
  by (induction before arbitrary: state) (simp_all add: fold_plan_Nil fold_plan_Cons split: option.splits)

lemma advance_Some:
  "advance lib pddl state action_call = Some state' \<longleftrightarrow>
     (\<exists>action arguments is_changed applied changed.
        Action_Parse lib pddl action_call = Inr (action, arguments) \<and>
        Action_IsValid lib action state arguments = Inr True \<and>
        Action_Apply_in_place lib action arguments state = Inr (is_changed, applied) \<and>
        DerivedPredicate_Apply lib (pddl_derived_predicates pddl) applied = Inr (changed, state'))"
  by (auto simp: advance_def split: sum.splits bool.splits prod.splits)

lemma precondition_Some:
  "precondition lib pddl state action_call = Some valid \<longleftrightarrow>
     (\<exists>action arguments.
        Action_Parse lib pddl action_call = Inr (action, arguments) \<and>
        Action_IsValid lib action state arguments = Inr valid)"
  by (auto simp: precondition_def split: sum.splits prod.splits)

lemma IsValidPlan_loop_step:
  "advance lib pddl state action_call = Some state' \<Longrightarrow>
   IsValidPlan_loop lib pddl (action_call # rest) state = IsValidPlan_loop lib pddl rest state'"
  by (auto simp: advance_Some Apply_in_place_def)

lemma IsValidPlan_loop_invalid:
  "precondition lib pddl state action_call = Some False \<Longrightarrow>
   IsValidPlan_loop lib pddl (action_call # rest) state = Inr False"
  by (auto simp: precondition_Some)

lemma IsValidPlan_loop_stuck:
  "advance lib pddl state action_call = None \<Longrightarrow>
   precondition lib pddl state action_call \<noteq> Some False \<Longrightarrow>
   thrown (IsValidPlan_loop lib pddl (action_call # rest) state) \<noteq> None"
  by (auto simp: advance_def precondition_def thrown_def Apply_in_place_def
      split: sum.splits bool.splits prod.splits)

lemma IsValidPlan_loop_reached:
  "fold_plan lib pddl state before = Some reached \<Longrightarrow>
   IsValidPlan_loop lib pddl (before @ rest) state = IsValidPlan_loop lib pddl rest reached"
proof (induction before arbitrary: state)
  case Nil
  then show ?case by (simp add: fold_plan_Nil)
next
  case (Cons action_call before)
  from Cons.prems obtain state' where
    step: "advance lib pddl state action_call = Some state'" and
    rest: "fold_plan lib pddl state' before = Some reached"
    by (auto simp: fold_plan_Cons split: option.splits)
  have "IsValidPlan_loop lib pddl ((action_call # before) @ rest) state =
        IsValidPlan_loop lib pddl (before @ rest) state'"
    using IsValidPlan_loop_step [OF step] by simp
  also have "\<dots> = IsValidPlan_loop lib pddl rest reached"
    by (rule Cons.IH [OF rest])
  finally show ?case .
qed

lemma IsValidPlan_loop_True:
  "IsValidPlan_loop lib pddl action_skeleton state = Inr True \<longleftrightarrow>
     (\<exists>final. fold_plan lib pddl state action_skeleton = Some final \<and>
              Formula_call lib (pddl_goal pddl) final = Inr True)"
proof (induction action_skeleton arbitrary: state)
  case Nil
  show ?case by (simp add: fold_plan_Nil)
next
  case (Cons action_call rest)
  show ?case
  proof (cases "advance lib pddl state action_call")
    case None
    then have "IsValidPlan_loop lib pddl (action_call # rest) state \<noteq> Inr True"
      by (auto simp: advance_def Apply_in_place_def
          split: sum.splits bool.splits prod.splits if_splits)
    with None show ?thesis by (simp add: fold_plan_Cons)
  next
    case (Some state')
    then show ?thesis
      using IsValidPlan_loop_step [OF Some, of rest] Cons.IH [of state']
      by (simp add: fold_plan_Cons)
  qed
qed

lemma IsValidPlan_loop_False:
  "IsValidPlan_loop lib pddl action_skeleton state = Inr False \<longleftrightarrow>
     (\<exists>final. fold_plan lib pddl state action_skeleton = Some final \<and>
              Formula_call lib (pddl_goal pddl) final = Inr False) \<or>
     (\<exists>before action_call after reached.
        action_skeleton = before @ action_call # after \<and>
        fold_plan lib pddl state before = Some reached \<and>
        precondition lib pddl reached action_call = Some False)"
proof (induction action_skeleton arbitrary: state)
  case Nil
  show ?case by (simp add: fold_plan_Nil)
next
  case (Cons action_call rest)
  show ?case (is "?lhs \<longleftrightarrow> ?goal \<or> ?stop")
  proof
    assume lhs: ?lhs
    show "?goal \<or> ?stop"
    proof (cases "precondition lib pddl state action_call = Some False")
      case True
      then have "action_call # rest = [] @ action_call # rest \<and>
          fold_plan lib pddl state [] = Some state \<and>
          precondition lib pddl state action_call = Some False"
        by (simp add: fold_plan_Nil)
      then show ?thesis by blast
    next
      case False
      with lhs IsValidPlan_loop_stuck [of lib pddl state action_call rest]
      obtain state' where step: "advance lib pddl state action_call = Some state'"
        by (cases "advance lib pddl state action_call") (auto simp: thrown_def)
      from lhs IsValidPlan_loop_step [OF step, of rest]
      have "IsValidPlan_loop lib pddl rest state' = Inr False" by simp
      then consider
        (goal) final where "fold_plan lib pddl state' rest = Some final"
          "Formula_call lib (pddl_goal pddl) final = Inr False"
      | (stop) before t after reached where "rest = before @ t # after"
          "fold_plan lib pddl state' before = Some reached"
          "precondition lib pddl reached t = Some False"
        using Cons.IH [of state'] by blast
      then show ?thesis
      proof cases
        case goal
        then show ?thesis using step by (auto simp: fold_plan_Cons)
      next
        case stop
        then have "action_call # rest = (action_call # before) @ t # after \<and>
            fold_plan lib pddl state (action_call # before) = Some reached \<and>
            precondition lib pddl reached t = Some False"
          using step by (simp add: fold_plan_Cons)
        then show ?thesis by blast
      qed
    qed
  next
    assume "?goal \<or> ?stop"
    then show ?lhs
    proof
      assume ?goal
      then obtain final where
        final: "fold_plan lib pddl state (action_call # rest) = Some final" and
        goal: "Formula_call lib (pddl_goal pddl) final = Inr False"
        by blast
      from IsValidPlan_loop_reached [OF final, of "[]"] goal show ?lhs by simp
    next
      assume ?stop
      then obtain before t after reached where
        split: "action_call # rest = before @ t # after" and
        reached: "fold_plan lib pddl state before = Some reached" and
        invalid: "precondition lib pddl reached t = Some False"
        by blast
      from IsValidPlan_loop_reached [OF reached, of "t # after"]
        IsValidPlan_loop_invalid [OF invalid, of after] split
      show ?lhs by simp
    qed
  qed
qed

text \<open>
  Claim C1. \<^verbatim>\<open>IsValidPlan\<close> returns true exactly when the fold from the initial state goes
  through every action call, each one with its precondition true in the state reached so
  far and the state advanced by \<^verbatim>\<open>Action::Apply\<close> followed by \<^verbatim>\<open>DerivedPredicate::Apply\<close>,
  and the goal holds in the final state. It returns false exactly when the fold goes
  through and the goal does not hold in the final state, or when the fold reaches some
  call whose precondition is false in the state reached so far: then whatever follows that
  call is neither parsed nor applied.
\<close>

theorem IsValidPlan_fold:
  "(IsValidPlan lib pddl action_skeleton = Inr True \<longleftrightarrow>
      (\<exists>final. fold_plan lib pddl (pddl_initial_state pddl) action_skeleton = Some final \<and>
               Formula_call lib (pddl_goal pddl) final = Inr True)) \<and>
   (IsValidPlan lib pddl action_skeleton = Inr False \<longleftrightarrow>
      (\<exists>final. fold_plan lib pddl (pddl_initial_state pddl) action_skeleton = Some final \<and>
               Formula_call lib (pddl_goal pddl) final = Inr False) \<or>
      (\<exists>before action_call after reached.
         action_skeleton = before @ action_call # after \<and>
         fold_plan lib pddl (pddl_initial_state pddl) before = Some reached \<and>
         precondition lib pddl reached action_call = Some False))"
  unfolding IsValidPlan_def
  by (rule conjI [OF IsValidPlan_loop_True IsValidPlan_loop_False])

text \<open>
  With the hand, the goal \<^verbatim>\<open>(hand-empty)\<close> is a derived predicate. The plan \<^verbatim>\<open>paint(a)\<close> is
  valid: the step applies the action, which adds \<^verbatim>\<open>painted(a)\<close>, and the derived
  predicates, which add \<^verbatim>\<open>hand-empty()\<close>. After \<^verbatim>\<open>grasp(a)\<close> a second \<^verbatim>\<open>grasp(a)\<close> has a
  false precondition, and the plan is refused although the call after it names an unknown
  action; without the refused call that unknown action is an error.
\<close>

theorem IsValidPlan_fold_witness:
  "fold_plan hand hand_pddl (pddl_initial_state hand_pddl) [''paint(a)''] =
     Some {|mk_prop ''on-table'' [block_a], mk_prop ''on-table'' [block_b],
            mk_prop ''painted'' [block_a], mk_prop ''hand-empty'' []|} \<and>
   Formula_call hand (pddl_goal hand_pddl)
     {|mk_prop ''on-table'' [block_a], mk_prop ''on-table'' [block_b],
       mk_prop ''painted'' [block_a], mk_prop ''hand-empty'' []|} = Inr True \<and>
   IsValidPlan hand hand_pddl [''paint(a)''] = Inr True \<and>
   fold_plan hand hand_pddl (pddl_initial_state hand_pddl) [''grasp(a)''] =
     Some {|mk_prop ''on-table'' [block_b], mk_prop ''holding'' [block_a],
            mk_prop ''hand-full'' []|} \<and>
   precondition hand hand_pddl
     {|mk_prop ''on-table'' [block_b], mk_prop ''holding'' [block_a], mk_prop ''hand-full'' []|}
     ''grasp(a)'' = Some False \<and>
   IsValidPlan hand hand_pddl ([''grasp(a)''] @ ''grasp(a)'' # [''fly(b)'']) = Inr False \<and>
   thrown (IsValidPlan hand hand_pddl [''grasp(a)'', ''fly(b)'']) = Some (UnknownAction ''fly'')"
proof -
  have final: "fold_plan hand hand_pddl (pddl_initial_state hand_pddl) [''paint(a)''] =
     Some {|mk_prop ''on-table'' [block_a], mk_prop ''on-table'' [block_b],
            mk_prop ''painted'' [block_a], mk_prop ''hand-empty'' []|}"
    by code_simp
  have goal: "Formula_call hand (pddl_goal hand_pddl)
     {|mk_prop ''on-table'' [block_a], mk_prop ''on-table'' [block_b],
       mk_prop ''painted'' [block_a], mk_prop ''hand-empty'' []|} = Inr True"
    by code_simp
  have reached: "fold_plan hand hand_pddl (pddl_initial_state hand_pddl) [''grasp(a)''] =
     Some {|mk_prop ''on-table'' [block_b], mk_prop ''holding'' [block_a],
            mk_prop ''hand-full'' []|}"
    by code_simp
  have invalid: "precondition hand hand_pddl
     {|mk_prop ''on-table'' [block_b], mk_prop ''holding'' [block_a], mk_prop ''hand-full'' []|}
     ''grasp(a)'' = Some False"
    by code_simp
  have unknown:
    "thrown (IsValidPlan hand hand_pddl [''grasp(a)'', ''fly(b)'']) = Some (UnknownAction ''fly'')"
    by code_simp
  have valid: "IsValidPlan hand hand_pddl [''paint(a)''] = Inr True"
    using IsValidPlan_fold [of hand hand_pddl "[''paint(a)'']"] final goal
    by blast
  have stopped:
    "IsValidPlan hand hand_pddl ([''grasp(a)''] @ ''grasp(a)'' # [''fly(b)'']) = Inr False"
    using IsValidPlan_fold
      [of hand hand_pddl "[''grasp(a)''] @ ''grasp(a)'' # [''fly(b)'']"] reached invalid
    by blast
  from final goal valid reached invalid stopped unknown show ?thesis
    by (intro conjI)
qed

section \<open>Properties of \<^verbatim>\<open>IsValidTuple\<close> and \<^verbatim>\<open>NextState\<close>\<close>

lemma Apply_Inr:
  "Apply lib state action arguments predicates = Inr next_state \<longleftrightarrow>
     (\<exists>applied changed.
        Action_Apply lib action state arguments = Inr applied \<and>
        DerivedPredicate_Apply lib predicates applied = Inr (changed, next_state))"
  by (auto simp: Apply_def split: sum.splits prod.splits)

lemma NextState_Inr:
  "NextState lib pddl state action_call = Inr next_state \<longleftrightarrow>
     (\<exists>action arguments.
        Action_Parse lib pddl action_call = Inr (action, arguments) \<and>
        Apply lib state action arguments (pddl_derived_predicates pddl) = Inr next_state)"
  by (auto simp: NextState_def split: sum.splits prod.splits)

lemma IsValidAction_Inr:
  "IsValidAction lib pddl state action_call = Inr valid \<longleftrightarrow>
     (\<exists>action arguments.
        Action_Parse lib pddl action_call = Inr (action, arguments) \<and>
        Action_IsValid lib action state arguments = Inr valid)"
  by (auto simp: IsValidAction_def split: sum.splits prod.splits)

text \<open>
  Claim C2. \<^verbatim>\<open>IsValidTuple\<close> returns true exactly when the action call parses, the
  precondition of the parsed action holds in the state, and the action applied to the state
  followed by the derived predicates gives a state equal to the given next state. Said
  with the other operations: \<^verbatim>\<open>IsValidAction\<close> returns true and \<^verbatim>\<open>NextState\<close> returns the
  given next state.
\<close>

theorem IsValidTuple_iff:
  "(IsValidTuple lib pddl state action_call next_state = Inr True \<longleftrightarrow>
      (\<exists>action arguments applied changed.
         Action_Parse lib pddl action_call = Inr (action, arguments) \<and>
         Action_IsValid lib action state arguments = Inr True \<and>
         Action_Apply lib action state arguments = Inr applied \<and>
         DerivedPredicate_Apply lib (pddl_derived_predicates pddl) applied =
           Inr (changed, next_state))) \<and>
   (IsValidTuple lib pddl state action_call next_state = Inr True \<longleftrightarrow>
      IsValidAction lib pddl state action_call = Inr True \<and>
      NextState lib pddl state action_call = Inr next_state)"
proof -
  have "IsValidTuple lib pddl state action_call next_state = Inr True \<longleftrightarrow>
      (\<exists>action arguments.
         Action_Parse lib pddl action_call = Inr (action, arguments) \<and>
         Action_IsValid lib action state arguments = Inr True \<and>
         Apply lib state action arguments (pddl_derived_predicates pddl) = Inr next_state)"
    by (auto simp: IsValidTuple_def split: sum.splits prod.splits)
  then show ?thesis
    by (auto simp: Apply_Inr NextState_Inr IsValidAction_Inr)
qed

text \<open>
  In the scenario of the specification \<^verbatim>\<open>pick-up(a)\<close> leads from the initial state to
  \<^verbatim>\<open>{on-table(b)}\<close>, and to no other state.
\<close>

theorem IsValidTuple_iff_witness:
  "IsValidAction blocks blocks_pddl (pddl_initial_state blocks_pddl) ''pick-up(a)'' = Inr True \<and>
   NextState blocks blocks_pddl (pddl_initial_state blocks_pddl) ''pick-up(a)'' =
     Inr {|mk_prop ''on-table'' [block_b]|} \<and>
   IsValidTuple blocks blocks_pddl (pddl_initial_state blocks_pddl) ''pick-up(a)''
     {|mk_prop ''on-table'' [block_b]|} = Inr True \<and>
   IsValidTuple blocks blocks_pddl (pddl_initial_state blocks_pddl) ''pick-up(a)'' {||} \<noteq> Inr True"
proof -
  have valid:
    "IsValidAction blocks blocks_pddl (pddl_initial_state blocks_pddl) ''pick-up(a)'' = Inr True"
    by code_simp
  have next_state:
    "NextState blocks blocks_pddl (pddl_initial_state blocks_pddl) ''pick-up(a)'' =
       Inr {|mk_prop ''on-table'' [block_b]|}"
    by code_simp
  have other: "{|mk_prop ''on-table'' [block_b]|} \<noteq> {||}"
    by simp
  note iff = IsValidTuple_iff
    [of blocks blocks_pddl "pddl_initial_state blocks_pddl" "''pick-up(a)''", THEN conjunct2]
  have "IsValidTuple blocks blocks_pddl (pddl_initial_state blocks_pddl) ''pick-up(a)''
     {|mk_prop ''on-table'' [block_b]|} = Inr True"
    using iff [of "{|mk_prop ''on-table'' [block_b]|}"] valid next_state by simp
  moreover have
    "IsValidTuple blocks blocks_pddl (pddl_initial_state blocks_pddl) ''pick-up(a)'' {||} \<noteq> Inr True"
    using iff [of "{||}"] next_state other by simp
  ultimately show ?thesis
    using valid next_state by (intro conjI)
qed

text \<open>
  Claim C4. \<^verbatim>\<open>NextState\<close> does not look at the precondition: its result is the same
  whatever \<^verbatim>\<open>Action::IsValid\<close> would answer. For a call that parses, the result is the
  action applied to the state, followed by the derived predicates.
\<close>

theorem NextState_unconditional:
  "NextState (lib\<lparr>Action_IsValid := is_valid\<rparr>) pddl state action_call =
     NextState lib pddl state action_call \<and>
   (Action_Parse lib pddl action_call = Inr (action, arguments) \<longrightarrow>
      NextState lib pddl state action_call =
        (case Action_Apply lib action state arguments of
           Inl e \<Rightarrow> Inl e
         | Inr applied \<Rightarrow>
             (case DerivedPredicate_Apply lib (pddl_derived_predicates pddl) applied of
                Inl e \<Rightarrow> Inl e
              | Inr (changed, next_state) \<Rightarrow> Inr next_state)))"
  by (simp add: NextState_def Apply_def split: sum.splits prod.splits)

text \<open>
  With the hand, \<^verbatim>\<open>grasp(a)\<close> is not valid in \<^verbatim>\<open>{on-table(b)}\<close>, and \<^verbatim>\<open>NextState\<close> still
  returns the state with \<^verbatim>\<open>holding(a)\<close> and the derived \<^verbatim>\<open>hand-full()\<close>, the state it
  returns when every call is taken as valid.
\<close>

theorem NextState_unconditional_witness:
  "IsValidAction hand hand_pddl {|mk_prop ''on-table'' [block_b]|} ''grasp(a)'' = Inr False \<and>
   NextState hand hand_pddl {|mk_prop ''on-table'' [block_b]|} ''grasp(a)'' =
     Inr {|mk_prop ''on-table'' [block_b], mk_prop ''holding'' [block_a], mk_prop ''hand-full'' []|} \<and>
   NextState (hand\<lparr>Action_IsValid := \<lambda>action state arguments. Inr True\<rparr>) hand_pddl
       {|mk_prop ''on-table'' [block_b]|} ''grasp(a)'' =
     Inr {|mk_prop ''on-table'' [block_b], mk_prop ''holding'' [block_a], mk_prop ''hand-full'' []|}"
proof -
  have invalid:
    "IsValidAction hand hand_pddl {|mk_prop ''on-table'' [block_b]|} ''grasp(a)'' = Inr False"
    by code_simp
  have applied:
    "NextState hand hand_pddl {|mk_prop ''on-table'' [block_b]|} ''grasp(a)'' =
       Inr {|mk_prop ''on-table'' [block_b], mk_prop ''holding'' [block_a],
             mk_prop ''hand-full'' []|}"
    by code_simp
  have "NextState (hand\<lparr>Action_IsValid := \<lambda>action state arguments. Inr True\<rparr>) hand_pddl
       {|mk_prop ''on-table'' [block_b]|} ''grasp(a)'' =
     NextState hand hand_pddl {|mk_prop ''on-table'' [block_b]|} ''grasp(a)''"
    by (rule NextState_unconditional [THEN conjunct1])
  with invalid applied show ?thesis by simp
qed

section \<open>Properties of the constructor and of the empty plan\<close>

lemma foldl_finsert:
  "foldl (\<lambda>state x. finsert (f x) state) state xs = state |\<union>| fset_of_list (map f xs)"
  by (induction xs arbitrary: state) auto

lemma GetInitialState_add_effects:
  "GetInitialState lib domain problem =
     fset_of_list (map (initial_proposition lib domain)
                     (add_effects (problem_initial_state problem)))"
  by (simp add: GetInitialState_def foldl_finsert)

lemma Pddl_new_members:
  "Pddl_new lib domain_pddl problem_pddl = Inr pddl \<Longrightarrow>
   \<exists>domain problem.
     the_domain (pddl_analysis pddl) = Some domain \<and>
     the_problem (pddl_analysis pddl) = Some problem \<and>
     pddl_domain pddl = domain \<and> pddl_problem pddl = problem \<and>
     pddl_initial_state pddl = GetInitialState lib domain problem"
  by (auto simp: Pddl_new_def Let_def unset_Pddl_def split: sum.splits option.splits)

lemma GetActions_loop_closure:
  "GetActions_loop (lib\<lparr>DerivedPredicate_Apply := closure\<rparr>) pddl ops actions =
   GetActions_loop lib pddl ops actions"
  by (induction ops arbitrary: actions) (simp_all split: VAL_operator.splits sum.splits)

lemma GetAxioms_loop_closure:
  "GetAxioms_loop (lib\<lparr>DerivedPredicate_Apply := closure\<rparr>) pddl ops axioms =
   GetAxioms_loop lib pddl ops axioms"
  by (induction ops arbitrary: axioms) (simp_all split: VAL_operator.splits sum.splits)

lemma GetDerivedPredicates_loop_closure:
  "GetDerivedPredicates_loop (lib\<lparr>DerivedPredicate_Apply := closure\<rparr>) pddl drvs predicates =
   GetDerivedPredicates_loop lib pddl drvs predicates"
  by (induction drvs arbitrary: predicates) (simp_all split: sum.splits)

lemma Formula_of_goal_closure:
  "Formula_of_goal (lib\<lparr>DerivedPredicate_Apply := closure\<rparr>) = Formula_of_goal lib"
  by simp

lemma Pddl_new_closure:
  "Pddl_new (lib\<lparr>DerivedPredicate_Apply := closure\<rparr>) domain_pddl problem_pddl =
   Pddl_new lib domain_pddl problem_pddl"
proof -
  have "ParsePddl (lib\<lparr>DerivedPredicate_Apply := closure\<rparr>) = ParsePddl lib"
    by (intro ext) (simp add: ParsePddl_def Let_def)
  moreover have "GetObjects (lib\<lparr>DerivedPredicate_Apply := closure\<rparr>) = GetObjects lib"
    by (intro ext) (simp add: GetObjects_def split: sum.splits)
  moreover have "GetActions (lib\<lparr>DerivedPredicate_Apply := closure\<rparr>) = GetActions lib"
    by (intro ext) (simp add: GetActions_def GetActions_loop_closure)
  moreover have "GetAxioms (lib\<lparr>DerivedPredicate_Apply := closure\<rparr>) = GetAxioms lib"
    by (intro ext) (simp add: GetAxioms_def GetAxioms_loop_closure)
  moreover have "GetDerivedPredicates (lib\<lparr>DerivedPredicate_Apply := closure\<rparr>) =
      GetDerivedPredicates lib"
    by (intro ext) (simp add: GetDerivedPredicates_def GetDerivedPredicates_loop_closure)
  moreover have "GetInitialState (lib\<lparr>DerivedPredicate_Apply := closure\<rparr>) =
      GetInitialState lib"
    by (intro ext) (simp add: GetInitialState_def initial_proposition_def)
  ultimately show ?thesis
    by (simp add: Pddl_new_def Formula_of_goal_closure Let_def
        cong: sum.case_cong option.case_cong)
qed

text \<open>
  Claim C10. On the empty sequence \<^verbatim>\<open>IsValidPlan\<close> returns what the goal formula returns on
  the initial state of the facade. The constructor sets that state to the result of
  \<^verbatim>\<open>GetInitialState\<close>, which holds one proposition for each add effect of the problem's
  initial effects and nothing else; the constructor gives the same facade whatever the
  closure of the derived predicates would do, since it does not run it.
\<close>

theorem IsValidPlan_empty:
  "IsValidPlan lib pddl [] = Formula_call lib (pddl_goal pddl) (pddl_initial_state pddl) \<and>
   (Pddl_new lib domain_pddl problem_pddl = Inr pddl \<longrightarrow>
      (\<exists>domain problem.
         the_domain (pddl_analysis pddl) = Some domain \<and>
         the_problem (pddl_analysis pddl) = Some problem \<and>
         pddl_initial_state pddl =
           fset_of_list (map (initial_proposition lib domain)
                           (add_effects (problem_initial_state problem))))) \<and>
   Pddl_new (lib\<lparr>DerivedPredicate_Apply := closure\<rparr>) domain_pddl problem_pddl =
     Pddl_new lib domain_pddl problem_pddl"
proof (intro conjI impI)
  show "IsValidPlan lib pddl [] = Formula_call lib (pddl_goal pddl) (pddl_initial_state pddl)"
    by (simp add: IsValidPlan_def)
next
  assume "Pddl_new lib domain_pddl problem_pddl = Inr pddl"
  from Pddl_new_members [OF this]
  show "\<exists>domain problem.
         the_domain (pddl_analysis pddl) = Some domain \<and>
         the_problem (pddl_analysis pddl) = Some problem \<and>
         pddl_initial_state pddl =
           fset_of_list (map (initial_proposition lib domain)
                           (add_effects (problem_initial_state problem)))"
    by (auto simp: GetInitialState_add_effects)
next
  show "Pddl_new (lib\<lparr>DerivedPredicate_Apply := closure\<rparr>) domain_pddl problem_pddl =
     Pddl_new lib domain_pddl problem_pddl"
    by (rule Pddl_new_closure)
qed

text \<open>
  With the hand, the initial state is \<^verbatim>\<open>{on-table(a), on-table(b)}\<close>. The goal
  \<^verbatim>\<open>(hand-empty)\<close> is a derived predicate, and the empty plan is not valid: the initial
  state does not hold \<^verbatim>\<open>hand-empty()\<close>, which the derived predicates would add.
\<close>

theorem IsValidPlan_empty_witness:
  "Pddl_new hand ''hand-domain.pddl'' ''hand-problem.pddl'' = Inr hand_pddl \<and>
   the_problem (pddl_analysis hand_pddl) = Some hand_problem \<and>
   pddl_initial_state hand_pddl = {|mk_prop ''on-table'' [block_a], mk_prop ''on-table'' [block_b]|} \<and>
   Formula_call hand (pddl_goal hand_pddl) (pddl_initial_state hand_pddl) = Inr False \<and>
   IsValidPlan hand hand_pddl [] = Inr False \<and>
   DerivedPredicate_Apply hand (pddl_derived_predicates hand_pddl) (pddl_initial_state hand_pddl) =
     Inr (True, {|mk_prop ''on-table'' [block_a], mk_prop ''on-table'' [block_b],
                  mk_prop ''hand-empty'' []|}) \<and>
   Formula_call hand (pddl_goal hand_pddl)
     {|mk_prop ''on-table'' [block_a], mk_prop ''on-table'' [block_b], mk_prop ''hand-empty'' []|} =
     Inr True"
proof -
  have problem: "the_problem (pddl_analysis hand_pddl) = Some hand_problem"
    by code_simp
  have effects: "fset_of_list (map (initial_proposition hand hand_domain)
      (add_effects (problem_initial_state hand_problem))) =
      {|mk_prop ''on-table'' [block_a], mk_prop ''on-table'' [block_b]|}"
    by code_simp
  have domain: "the_domain (pddl_analysis hand_pddl) = Some hand_domain"
    by code_simp
  have goal: "Formula_call hand (pddl_goal hand_pddl) (pddl_initial_state hand_pddl) = Inr False"
    by code_simp
  have closure:
    "DerivedPredicate_Apply hand (pddl_derived_predicates hand_pddl) (pddl_initial_state hand_pddl) =
     Inr (True, {|mk_prop ''on-table'' [block_a], mk_prop ''on-table'' [block_b],
                  mk_prop ''hand-empty'' []|})"
    by code_simp
  have closed: "Formula_call hand (pddl_goal hand_pddl)
     {|mk_prop ''on-table'' [block_a], mk_prop ''on-table'' [block_b], mk_prop ''hand-empty'' []|} =
     Inr True"
    by code_simp
  note at_hand = IsValidPlan_empty
    [of hand hand_pddl "''hand-domain.pddl''" "''hand-problem.pddl''"]
  from at_hand [THEN conjunct2, THEN conjunct1, THEN mp, OF Pddl_new_hand] problem domain effects
  have initial: "pddl_initial_state hand_pddl =
      {|mk_prop ''on-table'' [block_a], mk_prop ''on-table'' [block_b]|}"
    by auto
  from at_hand [THEN conjunct1] goal
  have empty: "IsValidPlan hand hand_pddl [] = Inr False"
    by simp
  from Pddl_new_hand problem initial goal empty closure closed show ?thesis
    by (intro conjI)
qed

section \<open>Properties of \<^verbatim>\<open>ParseState\<close> and \<^verbatim>\<open>Stringify\<close>\<close>

lemma ParseState_loop_parsed:
  "\<forall>str_prop \<in> set str_props. Proposition_of_string lib pddl str_prop = Inr (parsed str_prop) \<Longrightarrow>
   ParseState_loop lib pddl str_props state = Inr (state |\<union>| fset_of_list (map parsed str_props))"
  by (induction str_props arbitrary: state) auto

lemma ParseState_parsed:
  assumes "\<forall>str_prop. str_prop |\<in>| str_state \<longrightarrow>
             Proposition_of_string lib pddl str_prop = Inr (parsed str_prop)"
  shows "ParseState lib pddl str_state = Inr (parsed |`| str_state)"
proof -
  have "\<forall>str_prop \<in> set (sorted_list_of_fset str_state).
          Proposition_of_string lib pddl str_prop = Inr (parsed str_prop)"
    using assms by simp
  from ParseState_loop_parsed [OF this, of "{||}"]
  have "ParseState lib pddl str_state =
      Inr (fset_of_list (map parsed (sorted_list_of_fset str_state)))"
    by (simp add: ParseState_def)
  also have "fset_of_list (map parsed (sorted_list_of_fset str_state)) = parsed |`| str_state"
    by (rule fset_eqI) (auto simp: fset_of_list_elem)
  finally show ?thesis .
qed

lemma ParseState_rebuilds:
  assumes "\<forall>prop. prop |\<in>| state \<longrightarrow>
             Proposition_of_string lib pddl (Proposition_to_string lib prop) = Inr prop"
  shows "ParseState lib pddl (Stringify lib state) = Inr state"
proof -
  define parsed where "parsed str_prop = projr (Proposition_of_string lib pddl str_prop)"
    for str_prop
  have rebuilt: "parsed (Proposition_to_string lib p) = p" if "p |\<in>| state" for p
    using assms that by (simp add: parsed_def)
  have "\<forall>str_prop. str_prop |\<in>| Stringify lib state \<longrightarrow>
          Proposition_of_string lib pddl str_prop = Inr (parsed str_prop)"
    using assms by (auto simp: Stringify_def parsed_def)
  from ParseState_parsed [OF this]
  have "ParseState lib pddl (Stringify lib state) = Inr (parsed |`| Stringify lib state)" .
  also have "parsed |`| Stringify lib state = state"
    by (rule fset_eqI) (auto simp: Stringify_def rebuilt intro: rev_fimage_eqI)
  finally show ?thesis .
qed



subsection \<open>The text forms of the specification\<close>

lemma spec_split_plain:
  "list_all (\<lambda>c. c \<noteq> CHR '','' \<and> c \<noteq> CHR '' '') name \<Longrightarrow>
   spec_split (name @ rest) token = spec_split rest (token @ name)"
  by (induction name arbitrary: token) simp_all

lemma spec_split_join:
  "names \<noteq> [] \<Longrightarrow> list_all plain names \<Longrightarrow> spec_split (spec_join names) [] = names"
proof (induction names rule: spec_join.induct)
  case 1
  then show ?case by simp
next
  case (2 x)
  then have "list_all (\<lambda>c. c \<noteq> CHR '','' \<and> c \<noteq> CHR '' '') x"
    by (simp add: plain_def list_all_iff)
  from spec_split_plain [OF this, of "[]" "[]"] show ?case by simp
next
  case (3 x y rest)
  then have x: "list_all (\<lambda>c. c \<noteq> CHR '','' \<and> c \<noteq> CHR '' '') x"
    by (simp add: plain_def list_all_iff)
  from 3 have "spec_split (spec_join (y # rest)) [] = y # rest"
    by simp
  with spec_split_plain [OF x, of "'', '' @ spec_join (y # rest)" "[]"] show ?case
    by simp
qed

lemma spec_join_plain:
  "list_all plain names \<Longrightarrow> CHR '')'' \<notin> set (spec_join names) \<and> CHR ''('' \<notin> set (spec_join names)"
  by (induction names rule: spec_join.induct) (auto simp: plain_def list_all_iff)

lemma spec_join_empty: "list_all plain names \<Longrightarrow> spec_join names = [] \<longleftrightarrow> names = []"
  by (induction names rule: spec_join.induct) (auto simp: plain_def)

lemma takeWhile_until: "c \<notin> set xs \<Longrightarrow> takeWhile (\<lambda>x. x \<noteq> c) (xs @ c # ys) = xs"
  by (induction xs) auto

lemma dropWhile_until: "c \<notin> set xs \<Longrightarrow> dropWhile (\<lambda>x. x \<noteq> c) (xs @ c # ys) = c # ys"
  by (induction xs) auto

lemma spec_head_call_text:
  "CHR ''('' \<notin> set name \<Longrightarrow> spec_head (spec_call_text name arguments) = name"
  by (simp add: spec_head_def spec_call_text_def takeWhile_until)

lemma spec_tokens_call_text:
  assumes "CHR ''('' \<notin> set name" "list_all plain (map object_name arguments)"
  shows "spec_tokens (spec_call_text name arguments) = map object_name arguments"
proof -
  let ?names = "map object_name arguments"
  have "takeWhile (\<lambda>c. c \<noteq> CHR '')'')
          (drop 1 (dropWhile (\<lambda>c. c \<noteq> CHR ''('') (spec_call_text name arguments))) =
        spec_join ?names"
    using assms spec_join_plain [of ?names]
    by (simp add: spec_call_text_def dropWhile_until takeWhile_until)
  then show ?thesis
    using assms(2) spec_join_empty [of ?names] spec_split_join [of ?names]
    by (auto simp: spec_tokens_def Let_def)
qed

lemma spec_lookup_all_names:
  "list_all (\<lambda>object. spec_lookup_object objects (object_name object) = Inr object) arguments \<Longrightarrow>
   spec_lookup_all objects (map object_name arguments) = Inr arguments"
  by (induction arguments) simp_all

lemma spec_Proposition_read_back:
  "well_formed pddl p \<Longrightarrow>
   spec_Proposition_of_string pddl (spec_Proposition_to_string p) = Inr p"
proof -
  assume wf: "well_formed pddl p"
  then have head: "CHR ''('' \<notin> set (proposition_name p)"
    and names: "list_all plain (map object_name (proposition_arguments p))"
    and found: "list_all (\<lambda>object.
        spec_lookup_object (pddl_objects pddl) (object_name object) = Inr object)
        (proposition_arguments p)"
    by (auto simp: well_formed_def list_all_iff)
  show ?thesis
    using spec_head_call_text [OF head] spec_tokens_call_text [OF head names]
      spec_lookup_all_names [OF found]
    by (simp add: spec_Proposition_of_string_def spec_Proposition_to_string_def)
qed

text \<open>
  With the classes as the specification describes them, the condition of claim C7 holds
  of every state of well-formed propositions: each such state is rebuilt from its text
  form.
\<close>

lemma spec_ParseState_rebuilds:
  "(\<forall>p. p |\<in>| state \<longrightarrow> well_formed pddl p) \<Longrightarrow>
   ParseState (spec_symbolic files) pddl (Stringify (spec_symbolic files) state) = Inr state"
  by (rule ParseState_rebuilds) (simp add: spec_symbolic_def spec_Proposition_read_back)

section \<open>The two overloads of \<^verbatim>\<open>NextState\<close>\<close>

lemma NextState_text_form_agrees:
  "ParseState lib pddl (Stringify lib state) = Inr state \<Longrightarrow>
   (\<forall>action arguments.
      Action_Parse lib pddl action_call = Inr (action, arguments) \<longrightarrow>
      Apply_forms_agree lib action arguments state) \<Longrightarrow>
   NextState_str lib pddl (Stringify lib state) action_call =
     map_sum id (Stringify lib) (NextState lib pddl state action_call)"
proof (cases "Action_Parse lib pddl action_call")
  case (Inl e)
  assume "ParseState lib pddl (Stringify lib state) = Inr state"
  with Inl show ?thesis
    by (simp add: NextState_str_def NextState_def)
next
  case (Inr parsed)
  assume rebuilt: "ParseState lib pddl (Stringify lib state) = Inr state"
  assume agree: "\<forall>action arguments.
      Action_Parse lib pddl action_call = Inr (action, arguments) \<longrightarrow>
      Apply_forms_agree lib action arguments state"
  obtain action arguments where parsed: "parsed = (action, arguments)"
    by (cases parsed)
  from agree Inr parsed have "Apply_forms_agree lib action arguments state"
    by simp
  then have "map_sum id (Stringify lib) (Apply lib state action arguments (pddl_derived_predicates pddl)) =
      (case Apply_in_place lib action arguments (pddl_derived_predicates pddl) state of
         Inl e \<Rightarrow> Inl e
       | Inr (is_changed, state') \<Rightarrow> Inr (Stringify lib state'))"
    by (auto simp: Apply_forms_agree_def Apply_def Apply_in_place_def
        split: sum.splits prod.splits)
  with rebuilt Inr parsed show ?thesis
    by (simp add: NextState_str_def NextState_def)
qed

text \<open>
  With \<^verbatim>\<open>Action::Apply\<close> as the specification describes it, the form that changes the
  state in place leaves the state that the other form returns.
\<close>

lemma snd_foldl_spec_erase:
  "snd (foldl spec_erase changed_state dels) = snd changed_state |-| fset_of_list dels"
  by (induction dels arbitrary: changed_state) (auto simp: spec_erase_def)

lemma snd_foldl_spec_insert:
  "snd (foldl spec_insert changed_state adds) = snd changed_state |\<union>| fset_of_list adds"
  by (induction adds arbitrary: changed_state) (auto simp: spec_insert_def)

lemma spec_Apply_forms_agree: "Apply_forms_agree (spec_symbolic files) action arguments state"
proof -
  have "snd (foldl spec_insert (foldl spec_erase (False, state) dels) adds) =
      (state |-| fset_of_list dels) |\<union>| fset_of_list adds" for adds dels
    by (simp add: snd_foldl_spec_insert snd_foldl_spec_erase)
  then show ?thesis
    by (simp add: Apply_forms_agree_def spec_symbolic_def spec_Action_Apply_in_place_def
        spec_Action_Apply_def case_prod_unfold split: sum.splits)
qed

lemma spec_NextState_text_form_agrees:
  "ParseState (spec_symbolic files) pddl (Stringify (spec_symbolic files) state) = Inr state \<Longrightarrow>
   NextState_str (spec_symbolic files) pddl (Stringify (spec_symbolic files) state) action_call =
     map_sum id (Stringify (spec_symbolic files))
       (NextState (spec_symbolic files) pddl state action_call)"
  by (rule NextState_text_form_agrees) (simp_all add: spec_Apply_forms_agree)

text \<open>
  Claim C3 says that the two overloads of \<^verbatim>\<open>NextState\<close> agree on every state. In the
  scenario of the specification the table \<^verbatim>\<open>t\<close> is not an object of the registry. On the
  state \<^verbatim>\<open>{on-table(t)}\<close> the overload on states returns the state as it is for
  \<^verbatim>\<open>pick-up(a)\<close>, and the overload on text forms, given \<^verbatim>\<open>{"on-table(t)"}\<close>, throws
  \<^verbatim>\<open>UnknownObject\<close> in \<^verbatim>\<open>ParseState\<close>.
\<close>

theorem NextState_overloads_counterexample:
  "NextState blocks blocks_pddl {|mk_prop ''on-table'' [table_t]|} ''pick-up(a)'' =
     Inr {|mk_prop ''on-table'' [table_t]|} \<and>
   Stringify blocks {|mk_prop ''on-table'' [table_t]|} = {|''on-table(t)''|} \<and>
   thrown (NextState_str blocks blocks_pddl {|''on-table(t)''|} ''pick-up(a)'') =
     Some (UnknownObject ''t'') \<and>
   \<not> (\<forall>state action_call.
        NextState_str blocks blocks_pddl (Stringify blocks state) action_call =
        map_sum id (Stringify blocks) (NextState blocks blocks_pddl state action_call))"
proof -
  have pure: "NextState blocks blocks_pddl {|mk_prop ''on-table'' [table_t]|} ''pick-up(a)'' =
     Inr {|mk_prop ''on-table'' [table_t]|}"
    by code_simp
  have as_text: "Stringify blocks {|mk_prop ''on-table'' [table_t]|} = {|''on-table(t)''|}"
    by code_simp
  have refused: "thrown (NextState_str blocks blocks_pddl {|''on-table(t)''|} ''pick-up(a)'') =
     Some (UnknownObject ''t'')"
    by code_simp
  have "\<not> (\<forall>state action_call.
        NextState_str blocks blocks_pddl (Stringify blocks state) action_call =
        map_sum id (Stringify blocks) (NextState blocks blocks_pddl state action_call))"
  proof
    assume "\<forall>state action_call.
        NextState_str blocks blocks_pddl (Stringify blocks state) action_call =
        map_sum id (Stringify blocks) (NextState blocks blocks_pddl state action_call)"
    then have "NextState_str blocks blocks_pddl
        (Stringify blocks {|mk_prop ''on-table'' [table_t]|}) ''pick-up(a)'' =
        map_sum id (Stringify blocks)
          (NextState blocks blocks_pddl {|mk_prop ''on-table'' [table_t]|} ''pick-up(a)'')"
      by blast
    with pure as_text refused show False
      by (simp add: thrown_def)
  qed
  with pure as_text refused show ?thesis
    by (intro conjI)
qed

text \<open>
  Claim C3, amended. On every state that \<^verbatim>\<open>ParseState\<close> rebuilds from the text form that
  \<^verbatim>\<open>Stringify\<close> gives of it, and for every action call, the overload of \<^verbatim>\<open>NextState\<close> on
  text forms, given the text form of the state, returns the text form of the state that
  the overload on states returns, and throws the same error when that one throws. The
  classes that \<^verbatim>\<open>pddl.cc\<close> calls are the ones the specification describes.
\<close>

theorem NextState_overloads:
  "ParseState (spec_symbolic files) pddl (Stringify (spec_symbolic files) state) = Inr state \<Longrightarrow>
   NextState_str (spec_symbolic files) pddl (Stringify (spec_symbolic files) state) action_call =
     map_sum id (Stringify (spec_symbolic files))
       (NextState (spec_symbolic files) pddl state action_call)"
  by (rule spec_NextState_text_form_agrees)

text \<open>
  With the hand, both overloads lead from the initial state by \<^verbatim>\<open>grasp(a)\<close> to
  \<^verbatim>\<open>{on-table(b), holding(a), hand-full()}\<close>, where \<^verbatim>\<open>hand-full()\<close> is derived.
\<close>

theorem NextState_overloads_witness:
  "ParseState hand hand_pddl (Stringify hand (pddl_initial_state hand_pddl)) =
     Inr (pddl_initial_state hand_pddl) \<and>
   Stringify hand (pddl_initial_state hand_pddl) = {|''on-table(a)'', ''on-table(b)''|} \<and>
   NextState hand hand_pddl (pddl_initial_state hand_pddl) ''grasp(a)'' =
     Inr {|mk_prop ''on-table'' [block_b], mk_prop ''holding'' [block_a],
           mk_prop ''hand-full'' []|} \<and>
   NextState_str hand hand_pddl (Stringify hand (pddl_initial_state hand_pddl)) ''grasp(a)'' =
     Inr {|''on-table(b)'', ''holding(a)'', ''hand-full()''|}"
proof -
  have rebuilt: "ParseState hand hand_pddl (Stringify hand (pddl_initial_state hand_pddl)) =
     Inr (pddl_initial_state hand_pddl)"
    by code_simp
  have as_text: "Stringify hand (pddl_initial_state hand_pddl) =
     {|''on-table(a)'', ''on-table(b)''|}"
    by code_simp
  have next_state: "NextState hand hand_pddl (pddl_initial_state hand_pddl) ''grasp(a)'' =
     Inr {|mk_prop ''on-table'' [block_b], mk_prop ''holding'' [block_a],
           mk_prop ''hand-full'' []|}"
    by code_simp
  have next_text: "Stringify hand {|mk_prop ''on-table'' [block_b], mk_prop ''holding'' [block_a],
     mk_prop ''hand-full'' []|} = {|''on-table(b)'', ''holding(a)'', ''hand-full()''|}"
    by code_simp
  note at_hand = NextState_overloads
    [of "[''hand-domain.pddl'' \<mapsto> Domain_file hand_domain,
          ''hand-problem.pddl'' \<mapsto> Problem_file hand_problem]", folded hand_def]
  from at_hand [OF rebuilt, of "''grasp(a)''"] next_state next_text
  have "NextState_str hand hand_pddl (Stringify hand (pddl_initial_state hand_pddl))
     ''grasp(a)'' = Inr {|''on-table(b)'', ''holding(a)'', ''hand-full()''|}"
    by simp
  with rebuilt as_text next_state show ?thesis
    by (intro conjI)
qed

section \<open>Properties of \<^verbatim>\<open>ListValidArguments\<close> and \<^verbatim>\<open>ListValidActions\<close>\<close>











subsection \<open>The listing with the classes of the specification\<close>
















section \<open>\<^verbatim>\<open>NextState\<close> on a call whose precondition is false\<close>

text \<open>
  On a call whose precondition is false \<^verbatim>\<open>IsValidAction\<close> answers false, and \<^verbatim>\<open>NextState\<close>
  adds no test and no error of its own: it returns what \<^verbatim>\<open>Action::Apply\<close> and then
  \<^verbatim>\<open>DerivedPredicate::Apply\<close> return.
\<close>

lemma NextState_false_precondition:
  "IsValidAction lib pddl state action_call = Inr False \<Longrightarrow>
   \<exists>action arguments.
     Action_Parse lib pddl action_call = Inr (action, arguments) \<and>
     Action_IsValid lib action state arguments = Inr False \<and>
     NextState lib pddl state action_call =
       (case Action_Apply lib action state arguments of
          Inl e \<Rightarrow> Inl e
        | Inr applied \<Rightarrow>
            (case DerivedPredicate_Apply lib (pddl_derived_predicates pddl) applied of
               Inl e \<Rightarrow> Inl e
             | Inr (changed, closed) \<Rightarrow> Inr closed))"
  by (auto simp: IsValidAction_def NextState_def Apply_def split: sum.splits)

text \<open>
  Whether the effects of the action then reach the state rests on \<^verbatim>\<open>Action::Apply\<close>, which
  \<^verbatim>\<open>pddl.cc\<close> calls and does not define. If \<^verbatim>\<open>Action::Apply\<close> returns the state as it is
  whenever the precondition is false, \<^verbatim>\<open>NextState\<close> returns the state with its derived
  propositions and nothing of the action.
\<close>

lemma NextState_guarded_Apply:
  "(\<forall>action arguments.
      Action_IsValid lib action state arguments = Inr False \<longrightarrow>
      Action_Apply lib action state arguments = Inr state) \<Longrightarrow>
   IsValidAction lib pddl state action_call = Inr False \<Longrightarrow>
   NextState lib pddl state action_call =
     map_sum id snd (DerivedPredicate_Apply lib (pddl_derived_predicates pddl) state)"
  by (auto simp: IsValidAction_def NextState_def Apply_def split: sum.splits)

text \<open>
  If \<^verbatim>\<open>Action::Apply\<close> "accepts unconditionally" and computes the effect delta, as the
  specification describes it for \<^verbatim>\<open>NextState\<close>, the effects reach the state: with the hand,
  \<^verbatim>\<open>grasp(a)\<close> has a false precondition in \<^verbatim>\<open>{on-table(b)}\<close>, and \<^verbatim>\<open>NextState\<close> returns a state
  with \<^verbatim>\<open>holding(a)\<close>.
\<close>

lemma NextState_unguarded_Apply:
  "IsValidAction hand hand_pddl {|mk_prop ''on-table'' [block_b]|} ''grasp(a)'' = Inr False \<and>
   NextState hand hand_pddl {|mk_prop ''on-table'' [block_b]|} ''grasp(a)'' =
     Inr {|mk_prop ''on-table'' [block_b], mk_prop ''holding'' [block_a], mk_prop ''hand-full'' []|}"
  by code_simp


end
